theory Spec2Isabelle
  imports
    Complex_Main
    "HOL-Library.AList"
    "HOL-Library.Sublist"
    "HOL-Library.Char_ord"
    "HOL-Library.List_Lexorder"
begin

section \<open>Market data core of FinGuide-AI: values, clock, normalizer, cache, adapters\<close>

text \<open>
  The development embeds the Python modules under \<open>src/market_data\<close>:
  \<open>base_client.py\<close>, \<open>yahoo_client.py\<close>, \<open>nse_client.py\<close>, \<open>data_normalizer.py\<close>,
  \<open>cache_manager.py\<close> and \<open>data_sources.py\<close>.

  Conventions of the embedding.
  \<^item> A Python \<open>dict\<close> with string keys is an association list in insertion order;
    \<open>d.get(k)\<close> is \<open>map_of d k\<close>, \<open>d[k] = v\<close> is \<open>AList.update k v d\<close> (which replaces
    in place or appends, as a Python dict does), \<open>k in d\<close> is \<open>map_of d k \<noteq> None\<close>.
  \<^item> Python's \<open>None\<close> as a whole payload is \<open>None\<close> of an option type; as a value
    inside a payload it is \<open>JNull\<close>.
  \<^item> A finite Python \<open>float\<close> is the real number it denotes (\<open>JFloat\<close>, \<open>Finite\<close>);
    the infinities and NaN are values of their own (\<open>JNonFinite\<close>, \<open>NonFinite\<close>). The
    conversion \<open>float(i)\<close> of an integer rounds to 53 bits and overflows as in Python;
    the rounding of float arithmetic is not represented.
  \<^item> Strings are ASCII: \<open>upper\<close> acts on the letters a to z and \<open>strip\<close> removes the
    ASCII characters for which \<open>str.isspace\<close> holds.
  \<^item> Every \<open>try/except Exception\<close> of the source is a branch of the model that returns
    what the handler returns.
\<close>

subsection \<open>JSON-like values\<close>

text \<open>The floats that are no real numbers: \<open>inf\<close>, \<open>-inf\<close> and \<open>nan\<close>.\<close>

datatype nonfinite = PosInf | NegInf | NaN

datatype json =
    JNull
  | JBool bool
  | JInt int
  | JFloat real
  | JNonFinite nonfinite
  | JStr string
  | JList "json list"
  | JDict "(string \<times> json) list"

type_synonym payload = "(string \<times> json) list"

text \<open>Python truthiness (\<open>bool(v)\<close>, \<open>not v\<close>, \<open>if v:\<close>).\<close>

fun truthy :: "json \<Rightarrow> bool" where
  "truthy JNull = False"
| "truthy (JBool b) = b"
| "truthy (JInt i) = (i \<noteq> 0)"
| "truthy (JFloat r) = (r \<noteq> 0)"
| "truthy (JNonFinite n) = True"
| "truthy (JStr s) = (s \<noteq> [])"
| "truthy (JList xs) = (xs \<noteq> [])"
| "truthy (JDict d) = (d \<noteq> [])"

text \<open>
  Python's \<open>v == 0\<close>: true for the integer zero, the float zero and, because \<open>bool\<close>
  is a subclass of \<open>int\<close>, for \<open>False\<close>; false for every string, list and dict.
\<close>

fun py_eq_zero :: "json \<Rightarrow> bool" where
  "py_eq_zero (JBool b) = (\<not> b)"
| "py_eq_zero (JInt i) = (i = 0)"
| "py_eq_zero (JFloat r) = (r = 0)"
| "py_eq_zero _ = False"

text \<open>A Python \<open>float\<close> as a value of its own, outside a payload.\<close>

datatype pyfloat = Finite real | NonFinite nonfinite

text \<open>The float as it stands in a payload.\<close>

fun float_json :: "pyfloat \<Rightarrow> json" where
  "float_json (Finite r) = JFloat r"
| "float_json (NonFinite n) = JNonFinite n"

text \<open>\<open>x <= 0\<close> on a float: every comparison with NaN is false.\<close>

fun float_le_zero :: "pyfloat \<Rightarrow> bool" where
  "float_le_zero (Finite r) = (r \<le> 0)"
| "float_le_zero (NonFinite NegInf) = True"
| "float_le_zero (NonFinite PosInf) = False"
| "float_le_zero (NonFinite NaN) = False"

text \<open>\<open>abs(x) > b\<close> on a float.\<close>

fun float_abs_gt :: "pyfloat \<Rightarrow> real \<Rightarrow> bool" where
  "float_abs_gt (Finite r) b = (\<bar>r\<bar> > b)"
| "float_abs_gt (NonFinite NegInf) b = True"
| "float_abs_gt (NonFinite PosInf) b = True"
| "float_abs_gt (NonFinite NaN) b = False"

text \<open>\<open>d.get(k, default)\<close>.\<close>

definition get_or :: "payload \<Rightarrow> string \<Rightarrow> json \<Rightarrow> json" where
  "get_or d k dflt = (case map_of d k of Some v \<Rightarrow> v | None \<Rightarrow> dflt)"

text \<open>\<open>d.get(k)\<close>, whose default is Python's \<open>None\<close>.\<close>

definition get_none :: "payload \<Rightarrow> string \<Rightarrow> json" where
  "get_none d k = get_or d k JNull"

subsection \<open>Wall-clock time of \<open>is_market_open\<close>\<close>

text \<open>
  A naive \<open>datetime\<close>: the proleptic Gregorian ordinal of its date
  (\<open>date.toordinal()\<close>, day 1 is Monday 0001-01-01) and the time of day.
\<close>

record datetime =
  ordinal :: nat
  hour :: nat
  minute :: nat
  second :: nat
  microsecond :: nat

text \<open>\<open>datetime.weekday()\<close>: Monday is 0, Sunday is 6.\<close>

definition weekday :: "datetime \<Rightarrow> nat" where
  "weekday d = (ordinal d + 6) mod 7"

text \<open>\<open>a <= b\<close> on datetimes: lexicographic on date and time of day.\<close>

definition dt_le :: "datetime \<Rightarrow> datetime \<Rightarrow> bool" where
  "dt_le a b =
     (ordinal a < ordinal b \<or> (ordinal a = ordinal b \<and>
       (hour a < hour b \<or> (hour a = hour b \<and>
         (minute a < minute b \<or> (minute a = minute b \<and>
           (second a < second b \<or> (second a = second b \<and>
             microsecond a \<le> microsecond b))))))))"

text \<open>\<open>now.replace(hour=h, minute=m, second=0, microsecond=0)\<close>.\<close>

definition replace_hm :: "datetime \<Rightarrow> nat \<Rightarrow> nat \<Rightarrow> datetime" where
  "replace_hm now h m = now\<lparr>hour := h, minute := m, second := 0, microsecond := 0\<rparr>"

text \<open>\<open>YahooFinanceClient.is_market_open\<close>, with \<open>datetime.now()\<close> as the argument.\<close>

definition yahoo_is_market_open :: "datetime \<Rightarrow> bool" where
  "yahoo_is_market_open now =
     (if weekday now \<ge> 5 then False
      else (let market_open = replace_hm now 9 15;
                market_close = replace_hm now 15 30
            in dt_le market_open now \<and> dt_le now market_close))"

text \<open>\<open>NSEClient.is_market_open\<close>: the same body, written a second time in the source.\<close>

definition nse_is_market_open :: "datetime \<Rightarrow> bool" where
  "nse_is_market_open now =
     (if weekday now \<ge> 5 then False
      else (let market_open = replace_hm now 9 15;
                market_close = replace_hm now 15 30
            in dt_le market_open now \<and> dt_le now market_close))"

subsection \<open>Normalized structures and quality scoring\<close>

record normalized_price =
  np_symbol :: string
  np_price :: pyfloat
  np_change :: pyfloat
  np_change_percent :: pyfloat
  np_open :: pyfloat
  np_high :: pyfloat
  np_low :: pyfloat
  np_volume :: int
  np_timestamp :: json
  np_source :: json
  np_market_state :: json
  np_previous_close :: "pyfloat option"
  np_market_cap :: "pyfloat option"
  np_pe_ratio :: "pyfloat option"
  np_additional_data :: "payload option"

record normalized_historical_data =
  nh_symbol :: string
  nh_period :: json
  nh_interval :: json
  nh_data :: "payload list"
  nh_count :: int
  nh_source :: json
  nh_timestamp :: json

datatype quality_input =
    QPrice normalized_price
  | QHistorical normalized_historical_data
  | QDict payload

record quality_report =
  quality_score :: int
  issues :: "string list"
  is_valid :: bool

text \<open>
  The body of \<open>validate_data_quality\<close> threads the pair \<open>(quality_score, issues)\<close>
  through its \<open>if\<close> statements; \<open>deduct\<close> is one such statement
  \<open>if c: quality_score -= n; issues.append(msg)\<close>.
\<close>

definition deduct :: "bool \<Rightarrow> int \<Rightarrow> string \<Rightarrow> int \<times> string list \<Rightarrow> int \<times> string list" where
  "deduct c n msg acc = (if c then (fst acc - n, snd acc @ [msg]) else acc)"

definition score_price :: "normalized_price \<Rightarrow> int \<times> string list" where
  "score_price p =
     deduct (float_abs_gt (np_change_percent p) 20) 5 ''High volatility''
       (deduct (\<not> truthy (np_timestamp p)) 20 ''Missing timestamp''
         (deduct (np_volume p \<le> 0) 10 ''Zero volume''
           (deduct (float_le_zero (np_price p)) 30 ''Invalid price'' (100, []))))"

text \<open>
  \<open>timestamps = [point.get("timestamp") for point in data.data if point.get("timestamp")]\<close>
\<close>

definition timestamps_of :: "payload list \<Rightarrow> json list" where
  "timestamps_of pts =
     map (\<lambda>pt. get_none pt ''timestamp'') (filter (\<lambda>pt. truthy (get_none pt ''timestamp'')) pts)"

text \<open>
  The series branch. \<open>len(timestamps) < data.count * 0.9\<close> is a float comparison in
  the source; \<open>0.9\<close> is taken as the exact real.
\<close>

definition score_historical :: "normalized_historical_data \<Rightarrow> int \<times> string list" where
  "score_historical h =
     (let acc1 = (if nh_count h = 0 then (0, [''No historical data''])
                  else if nh_count h < 10 then (100 - 20, [''Insufficient data points''])
                  else (100, []))
      in deduct (real (length (timestamps_of (nh_data h))) < real_of_int (nh_count h) * 0.9)
           15 ''Missing timestamps'' acc1)"

definition validate_data_quality :: "quality_input \<Rightarrow> quality_report" where
  "validate_data_quality d =
     (let acc = (case d of
                   QPrice p \<Rightarrow> score_price p
                 | QHistorical h \<Rightarrow> score_historical h
                 | QDict _ \<Rightarrow> (100, []))
      in \<lparr>quality_score = max 0 (fst acc), issues = snd acc, is_valid = (fst acc \<ge> 50)\<rparr>)"

text \<open>
  Sample records. \<open>sample_quote\<close> is a quote with the given price, volume, timestamp
  and change in percent; \<open>zero_quote\<close> has price 0 and volume 0.
\<close>

definition sample_quote :: "pyfloat \<Rightarrow> int \<Rightarrow> json \<Rightarrow> pyfloat \<Rightarrow> normalized_price" where
  "sample_quote price volume timestamp change_percent =
     \<lparr>np_symbol = ''TCS'', np_price = price, np_change = Finite 0,
      np_change_percent = change_percent, np_open = Finite 0, np_high = Finite 0,
      np_low = Finite 0, np_volume = volume, np_timestamp = timestamp,
      np_source = JStr ''nse'', np_market_state = JStr ''open'',
      np_previous_close = Some (Finite 0), np_market_cap = Some (Finite 0),
      np_pe_ratio = Some (Finite 0), np_additional_data = None\<rparr>"

definition zero_quote :: normalized_price where
  "zero_quote = sample_quote (Finite 0) 0 (JStr ''2026-11-04T10:00:00'') (Finite 0)"

text \<open>
  A point with a timestamp and one without, as \<open>normalize_historical_data\<close> builds
  them, and the series of \<open>k\<close> points of the first kind followed by \<open>m\<close> of the second,
  with the \<open>count\<close> field given separately.
\<close>

definition stamped_point :: payload where
  "stamped_point =
     [(''timestamp'', JStr ''2026-11-03T00:00:00''), (''open'', JFloat 10), (''high'', JFloat 12),
      (''low'', JFloat 9), (''close'', JFloat 11), (''volume'', JInt 500)]"

definition bare_point :: payload where
  "bare_point =
     [(''timestamp'', JNull), (''open'', JFloat 10), (''high'', JFloat 12),
      (''low'', JFloat 9), (''close'', JFloat 11), (''volume'', JInt 500)]"

definition sample_series :: "nat \<Rightarrow> nat \<Rightarrow> int \<Rightarrow> normalized_historical_data" where
  "sample_series k m c =
     \<lparr>nh_symbol = ''TCS'', nh_period = JStr ''1y'', nh_interval = JStr ''1d'',
      nh_data = replicate k stamped_point @ replicate m bare_point, nh_count = c,
      nh_source = JStr ''yahoo_finance'', nh_timestamp = JStr ''2026-11-04T10:00:00''\<rparr>"

subsection \<open>Strings and symbol normalization\<close>

text \<open>The ASCII characters with \<open>str.isspace\<close>: tab to carriage return, 0x1C to 0x1F, space.\<close>

definition is_space :: "char \<Rightarrow> bool" where
  "is_space c = (c \<in> set [CHR 0x09, CHR 0x0A, CHR 0x0B, CHR 0x0C, CHR 0x0D,
                            CHR 0x1C, CHR 0x1D, CHR 0x1E, CHR 0x1F, CHR 0x20])"

text \<open>\<open>s.strip()\<close>\<close>

definition strip :: "string \<Rightarrow> string" where
  "strip s = rev (dropWhile is_space (rev (dropWhile is_space s)))"

definition upper_char :: "char \<Rightarrow> char" where
  "upper_char c =
     (case map_of (zip ''abcdefghijklmnopqrstuvwxyz'' ''ABCDEFGHIJKLMNOPQRSTUVWXYZ'') c of
        Some u \<Rightarrow> u | None \<Rightarrow> c)"

text \<open>\<open>s.upper()\<close>\<close>

definition upper :: "string \<Rightarrow> string" where
  "upper s = map upper_char s"

text \<open>\<open>s.endswith(suf)\<close> and \<open>s.startswith(pre)\<close>\<close>

definition endswith :: "string \<Rightarrow> string \<Rightarrow> bool" where
  "endswith s suf = suffix suf s"

definition startswith :: "string \<Rightarrow> string \<Rightarrow> bool" where
  "startswith s pre = prefix pre s"

text \<open>\<open>s[:-n]\<close> for a positive literal \<open>n\<close>.\<close>

definition drop_last :: "nat \<Rightarrow> string \<Rightarrow> string" where
  "drop_last n s = take (length s - n) s"

text \<open>\<open>YahooFinanceClient.indian_indices\<close>\<close>

definition indian_indices :: "(string \<times> string) list" where
  "indian_indices =
     [(''NIFTY'', ''^NSEI''), (''NIFTY50'', ''^NSEI''), (''SENSEX'', ''^BSESN''),
      (''BANKNIFTY'', ''^NSEBANK''), (''NIFTYIT'', ''^CNXIT''),
      (''NIFTYPHARMA'', ''^CNXPHARMA''), (''NIFTYAUTO'', ''^CNXAUTO''),
      (''NIFTYMETAL'', ''^CNXMETAL''), (''NIFTYREALTY'', ''^CNXREALTY'')]"

text \<open>\<open>YahooFinanceClient.normalize_symbol\<close>\<close>

definition yahoo_normalize_symbol :: "string \<Rightarrow> string" where
  "yahoo_normalize_symbol s =
     (let symbol = upper (strip s) in
      case map_of indian_indices symbol of
        Some idx \<Rightarrow> idx
      | None \<Rightarrow>
          if \<not> endswith symbol ''.NS'' \<and> \<not> startswith symbol ''^''
          then symbol @ ''.NS''
          else symbol)"

text \<open>\<open>NSEClient.normalize_symbol\<close>\<close>

definition nse_normalize_symbol :: "string \<Rightarrow> string" where
  "nse_normalize_symbol s =
     (let symbol = upper (strip s) in
      if endswith symbol ''.NS'' then drop_last 3 symbol
      else if endswith symbol ''.NSE'' then drop_last 4 symbol
      else symbol)"

text \<open>\<open>DataNormalizer.symbol_mappings\<close>\<close>

definition symbol_mappings :: "(string \<times> string) list" where
  "symbol_mappings =
     [(''NIFTY'', ''NIFTY''), (''NIFTY50'', ''NIFTY''), (''^NSEI'', ''NIFTY''),
      (''NIFTY 50'', ''NIFTY''), (''SENSEX'', ''SENSEX''), (''^BSESN'', ''SENSEX''),
      (''BANKNIFTY'', ''BANKNIFTY''), (''NIFTY BANK'', ''BANKNIFTY''),
      (''^NSEBANK'', ''BANKNIFTY'')]"

text \<open>\<open>DataNormalizer._normalize_symbol\<close> on a string argument.\<close>

definition normalizer_normalize_symbol :: "string \<Rightarrow> string" where
  "normalizer_normalize_symbol s =
     (if s = [] then []
      else (let symbol = upper (strip s) in
            case map_of symbol_mappings symbol of
              Some canon \<Rightarrow> canon
            | None \<Rightarrow>
                if endswith symbol ''.NS'' then drop_last 3 symbol
                else if endswith symbol ''.NSE'' then drop_last 4 symbol
                else if endswith symbol ''.BO'' then drop_last 3 symbol
                else if endswith symbol ''.BSE'' then drop_last 4 symbol
                else symbol))"

subsection \<open>Normalizer: coercions, price normalization, merge\<close>

text \<open>
  \<open>float(s)\<close> on a string is Python's own parser; it is a parameter \<open>float_of_str\<close> of
  the functions below, \<open>None\<close> standing for \<open>ValueError\<close>. It may return an infinity
  (\<open>float("1e999")\<close>) or NaN.
\<close>

type_synonym float_parser = "string \<Rightarrow> pyfloat option"

text \<open>\<open>n.bit_length()\<close>\<close>

fun bit_length :: "nat \<Rightarrow> nat" where
  "bit_length n = (if n = 0 then 0 else Suc (bit_length (n div 2)))"

declare bit_length.simps [simp del]

text \<open>\<open>a / 2 ^ e\<close> rounded to the nearest integer, a tie to the even one.\<close>

definition round_half_even :: "nat \<Rightarrow> nat \<Rightarrow> nat" where
  "round_half_even a e =
     (let q = a div 2 ^ e; r = a mod 2 ^ e
      in if 2 * r > 2 ^ e \<or> (2 * r = 2 ^ e \<and> odd q) then q + 1 else q)"

text \<open>
  \<open>float(i)\<close> on an integer: exact up to 53 bits, otherwise rounded to 53 significant
  bits; \<open>None\<close> is the \<open>OverflowError\<close> raised when the rounded value reaches \<open>2 ^ 1024\<close>.
\<close>

definition float_of_int :: "int \<Rightarrow> real option" where
  "float_of_int i =
     (let a = nat \<bar>i\<bar>; n = bit_length a
      in if n \<le> 53 then Some (real_of_int i)
         else (let e = n - 53; m = round_half_even a e * 2 ^ e
               in if 2 ^ 1024 \<le> m then None else Some (real_of_int (sgn i * int m))))"

text \<open>
  \<open>DataNormalizer._safe_float\<close>. \<open>None\<close> gives 0.0 by the explicit test; a string that
  does not parse raises \<open>ValueError\<close> and a list or dict raises \<open>TypeError\<close>, both caught
  and turned into 0.0; \<open>float(True)\<close> is 1.0. The \<open>OverflowError\<close> of an integer too
  large is not among the caught exceptions and leaves the function: the result \<open>None\<close>.
\<close>

fun safe_float :: "float_parser \<Rightarrow> json \<Rightarrow> pyfloat option" where
  "safe_float float_of_str JNull = Some (Finite 0)"
| "safe_float float_of_str (JBool b) = Some (Finite (if b then 1 else 0))"
| "safe_float float_of_str (JInt i) = map_option Finite (float_of_int i)"
| "safe_float float_of_str (JFloat r) = Some (Finite r)"
| "safe_float float_of_str (JNonFinite n) = Some (NonFinite n)"
| "safe_float float_of_str (JStr s) =
     (case float_of_str s of Some x \<Rightarrow> Some x | None \<Rightarrow> Some (Finite 0))"
| "safe_float float_of_str (JList xs) = Some (Finite 0)"
| "safe_float float_of_str (JDict d) = Some (Finite 0)"

text \<open>\<open>int(x)\<close> on a finite float truncates towards zero.\<close>

definition trunc :: "real \<Rightarrow> int" where
  "trunc r = (if 0 \<le> r then \<lfloor>r\<rfloor> else \<lceil>r\<rceil>)"

text \<open>
  \<open>int(x)\<close> on a float inside \<open>_safe_int\<close>: NaN raises \<open>ValueError\<close>, which is caught
  and gives 0; an infinity raises \<open>OverflowError\<close>, which is not caught (\<open>None\<close>).
\<close>

fun int_of_float :: "pyfloat \<Rightarrow> int option" where
  "int_of_float (Finite r) = Some (trunc r)"
| "int_of_float (NonFinite NaN) = Some 0"
| "int_of_float (NonFinite PosInf) = None"
| "int_of_float (NonFinite NegInf) = None"

text \<open>
  \<open>DataNormalizer._safe_int\<close>: \<open>int(float(value))\<close> with the same handlers, so an
  integer goes through \<open>float\<close> and is rounded to 53 bits.
\<close>

fun safe_int :: "float_parser \<Rightarrow> json \<Rightarrow> int option" where
  "safe_int float_of_str JNull = Some 0"
| "safe_int float_of_str (JBool b) = Some (if b then 1 else 0)"
| "safe_int float_of_str (JInt i) = map_option trunc (float_of_int i)"
| "safe_int float_of_str (JFloat r) = Some (trunc r)"
| "safe_int float_of_str (JNonFinite n) = int_of_float (NonFinite n)"
| "safe_int float_of_str (JStr s) =
     (case float_of_str s of Some x \<Rightarrow> int_of_float x | None \<Rightarrow> Some 0)"
| "safe_int float_of_str (JList xs) = Some 0"
| "safe_int float_of_str (JDict d) = Some 0"

text \<open>
  A value that \<open>float\<close> does not convert: \<open>None\<close>, a string the parser rejects, a list
  or a dict.
\<close>

fun not_numeric :: "float_parser \<Rightarrow> json \<Rightarrow> bool" where
  "not_numeric float_of_str JNull = True"
| "not_numeric float_of_str (JStr s) = (float_of_str s = None)"
| "not_numeric float_of_str (JList xs) = True"
| "not_numeric float_of_str (JDict d) = True"
| "not_numeric float_of_str _ = False"

text \<open>The payload lacks the key, or holds under it a value that is not numeric.\<close>

definition absent_or_not_numeric :: "float_parser \<Rightarrow> payload \<Rightarrow> string \<Rightarrow> bool" where
  "absent_or_not_numeric float_of_str raw k =
     (case map_of raw k of None \<Rightarrow> True | Some v \<Rightarrow> not_numeric float_of_str v)"

text \<open>\<open>"error" in d\<close>\<close>

definition has_error :: "payload \<Rightarrow> bool" where
  "has_error d = (map_of d ''error'' \<noteq> None)"

text \<open>
  \<open>_normalize_symbol(raw_data.get("symbol", ""))\<close> on an arbitrary value: a falsy value
  gives the empty string; a truthy value that is no string has no \<open>strip\<close>, and the
  \<open>AttributeError\<close> (here \<open>None\<close>) is caught by the caller's handler.
\<close>

definition normalize_symbol_value :: "json \<Rightarrow> string option" where
  "normalize_symbol_value v =
     (if \<not> truthy v then Some []
      else (case v of JStr s \<Rightarrow> Some (normalizer_normalize_symbol s) | _ \<Rightarrow> None))"

definition known_price_keys :: "string list" where
  "known_price_keys =
     [''symbol'', ''price'', ''change'', ''change_percent'', ''open'', ''high'', ''low'',
      ''volume'', ''timestamp'', ''market_state'', ''previous_close'', ''market_cap'',
      ''pe_ratio'', ''source'']"

text \<open>
  \<open>DataNormalizer.normalize_price_data\<close>. \<open>now_iso\<close> is \<open>datetime.now().isoformat()\<close>.
  The three optional fields go through \<open>_safe_float\<close> like the required ones, with
  \<open>raw_data.get(key)\<close> (default \<open>None\<close>) as the argument. An exception that leaves a
  coercion is caught by the handler of the function, which returns \<open>None\<close>.
\<close>

definition normalize_price_data :: "float_parser \<Rightarrow> string \<Rightarrow> payload \<Rightarrow> normalized_price option" where
  "normalize_price_data float_of_str now_iso raw_data =
     (if has_error raw_data then None
      else
        Option.bind (normalize_symbol_value (get_or raw_data ''symbol'' (JStr []))) (\<lambda>symbol.
        Option.bind (safe_float float_of_str (get_or raw_data ''price'' (JInt 0))) (\<lambda>price.
        Option.bind (safe_float float_of_str (get_or raw_data ''change'' (JInt 0))) (\<lambda>change.
        Option.bind (safe_float float_of_str (get_or raw_data ''change_percent'' (JInt 0)))
          (\<lambda>change_percent.
        Option.bind (safe_float float_of_str (get_or raw_data ''open'' (JInt 0))) (\<lambda>open_price.
        Option.bind (safe_float float_of_str (get_or raw_data ''high'' (JInt 0))) (\<lambda>high.
        Option.bind (safe_float float_of_str (get_or raw_data ''low'' (JInt 0))) (\<lambda>low.
        Option.bind (safe_int float_of_str (get_or raw_data ''volume'' (JInt 0))) (\<lambda>volume.
        Option.bind (safe_float float_of_str (get_none raw_data ''previous_close''))
          (\<lambda>previous_close.
        Option.bind (safe_float float_of_str (get_none raw_data ''market_cap'')) (\<lambda>market_cap.
        Option.bind (safe_float float_of_str (get_none raw_data ''pe_ratio'')) (\<lambda>pe_ratio.
          (let additional_data = filter (\<lambda>kv. fst kv \<notin> set known_price_keys) raw_data
           in Some \<lparr>np_symbol = symbol, np_price = price, np_change = change,
                np_change_percent = change_percent, np_open = open_price, np_high = high,
                np_low = low, np_volume = volume,
                np_timestamp = get_or raw_data ''timestamp'' (JStr now_iso),
                np_source = get_or raw_data ''source'' (JStr ''unknown''),
                np_market_state = get_or raw_data ''market_state'' (JStr ''unknown''),
                np_previous_close = Some previous_close, np_market_cap = Some market_cap,
                np_pe_ratio = Some pe_ratio,
                np_additional_data =
                  (if additional_data \<noteq> [] then Some additional_data else None)\<rparr>)))))))))))))"

text \<open>The keys of the numeric fields of a price payload.\<close>

definition numeric_price_keys :: "string list" where
  "numeric_price_keys =
     [''price'', ''change'', ''change_percent'', ''open'', ''high'', ''low'', ''volume'',
      ''previous_close'', ''market_cap'', ''pe_ratio'']"

text \<open>
  One round of the loop of \<open>merge_data_sources\<close>:
  \<open>if key not in merged or merged[key] is None or merged[key] == 0: merged[key] = value\<close>
\<close>

definition fill_key :: "payload \<Rightarrow> string \<times> json \<Rightarrow> payload" where
  "fill_key merged kv =
     (case map_of merged (fst kv) of
        None \<Rightarrow> AList.update (fst kv) (snd kv) merged
      | Some cur \<Rightarrow>
          if cur = JNull \<or> py_eq_zero cur then AList.update (fst kv) (snd kv) merged
          else merged)"

text \<open>\<open>not d or "error" in d\<close> for an argument that may be Python's \<open>None\<close>.\<close>

definition unusable :: "payload option \<Rightarrow> bool" where
  "unusable p = (case p of None \<Rightarrow> True | Some d \<Rightarrow> d = [] \<or> has_error d)"

text \<open>
  \<open>DataNormalizer.merge_data_sources\<close>. On dict arguments nothing in the body raises, so
  the handler is not reached.
\<close>

definition merge_data_sources :: "payload option \<Rightarrow> payload option \<Rightarrow> payload option" where
  "merge_data_sources primary_data fallback_data =
     (case primary_data of
        None \<Rightarrow> fallback_data
      | Some p \<Rightarrow>
          if p = [] \<or> has_error p then fallback_data
          else (case fallback_data of
                  None \<Rightarrow> primary_data
                | Some f \<Rightarrow>
                    if f = [] \<or> has_error f then primary_data
                    else (let merged = foldl fill_key p f;
                              merged = AList.update ''primary_source''
                                         (get_or p ''source'' (JStr ''unknown'')) merged;
                              merged = AList.update ''fallback_source''
                                         (get_or f ''source'' (JStr ''unknown'')) merged;
                              merged = AList.update ''merged'' (JBool True) merged
                          in Some merged)))"

text \<open>The payloads of the merge example of the specification, with keys a to d.\<close>

definition example_primary :: payload where
  "example_primary = [(''a'', JInt 5), (''b'', JInt 0), (''c'', JNull)]"

definition example_fallback :: payload where
  "example_fallback = [(''a'', JInt 9), (''b'', JInt 9), (''c'', JInt 9), (''d'', JInt 9)]"

text \<open>
  A quote in the shape the library-backed adapter returns it when the vendor reports no
  market capitalisation: \<open>market_cap\<close> is \<open>None\<close>, \<open>pe_ratio\<close> and \<open>previous_close\<close> are
  absent.
\<close>

definition sparse_quote :: payload where
  "sparse_quote =
     [(''symbol'', JStr ''TCS''), (''price'', JFloat 3500.5), (''volume'', JInt 1200),
      (''market_cap'', JNull), (''source'', JStr ''yahoo_finance'')]"

text \<open>
  A quote whose price is the text \<open>n/a\<close> and whose volume is a list, and a quote whose
  price is an integer beyond the range of a float.
\<close>

definition unreadable_quote :: payload where
  "unreadable_quote =
     [(''symbol'', JStr ''TCS''), (''price'', JStr ''n/a''), (''volume'', JList []),
      (''pe_ratio'', JStr ''n/a''), (''source'', JStr ''nse'')]"

definition oversized_quote :: payload where
  "oversized_quote = [(''symbol'', JStr ''TCS''), (''price'', JInt (2 ^ 1024))]"

subsection \<open>Cache manager\<close>

text \<open>
  Instants (\<open>datetime.now()\<close>, \<open>cached_at\<close>) are counted in microseconds, the resolution
  of \<open>datetime\<close>; \<open>timedelta(seconds=ttl)\<close> is \<open>ttl * 1000000\<close>. \<open>isoformat\<close> followed by
  \<open>fromisoformat\<close> gives the instant back.
\<close>

type_synonym instant = int

text \<open>
  A cache entry as \<open>set\<close> builds it. \<open>ce_cached_at\<close> is \<open>None\<close> when the \<open>cached_at\<close>
  field of a file is missing or no ISO timestamp, the case in which \<open>fromisoformat\<close>
  raises. Values of extra parameters are kept as the text \<open>f"{v}"\<close> renders.
\<close>

record 'd cache_entry =
  ce_cached_at :: "instant option"
  ce_cache_type :: string
  ce_symbol :: string
  ce_kwargs :: "(string \<times> string) list"
  ce_data :: 'd

text \<open>A file of the cache directory: JSON that \<open>json.load\<close> reads, or anything else.\<close>

datatype 'd cache_file = Corrupt | Stored "'d cache_entry"

text \<open>The two tiers, each keyed by the cache key (the file is \<open>key.json\<close>).\<close>

record 'd cache_state =
  memory_cache :: "string \<rightharpoonup> 'd cache_entry"
  disk :: "string \<rightharpoonup> 'd cache_file"

definition ttl_settings :: "(string \<times> int) list" where
  "ttl_settings =
     [(''real_time'', 60), (''indices'', 30), (''historical_1d'', 3600),
      (''historical_intraday'', 300), (''company_info'', 86400), (''gainers_losers'', 300),
      (''fii_dii'', 3600), (''default'', 600)]"

text \<open>\<open>self.ttl_settings.get(cache_type, self.ttl_settings["default"])\<close>\<close>

definition ttl_of :: "string \<Rightarrow> int" where
  "ttl_of cache_type =
     (case map_of ttl_settings cache_type of
        Some t \<Rightarrow> t
      | None \<Rightarrow> (case map_of ttl_settings ''default'' of Some t \<Rightarrow> t | None \<Rightarrow> 0))"

text \<open>\<open>sep.join(parts)\<close>\<close>

fun join :: "string \<Rightarrow> string list \<Rightarrow> string" where
  "join sep [] = []"
| "join sep [x] = x"
| "join sep (x # y # ys) = x @ sep @ join sep (y # ys)"

text \<open>
  \<open>CacheManager._get_cache_key(self, prefix, symbol, **kwargs)\<close>, called as
  \<open>self._get_cache_key(cache_type, symbol, **kwargs)\<close>. An extra parameter named
  \<open>prefix\<close> collides with the first formal parameter and the call raises \<open>TypeError\<close>
  (here \<open>None\<close>), inside the \<open>try\<close> of the caller. \<open>md5\<close> stands for
  \<open>hashlib.md5(s.encode()).hexdigest()\<close>. The keys of \<open>kwargs\<close> are distinct, so
  \<open>sorted(kwargs.items())\<close> orders by key.
\<close>

definition get_cache_key ::
  "(string \<Rightarrow> string) \<Rightarrow> string \<Rightarrow> string \<Rightarrow> (string \<times> string) list \<Rightarrow> string option" where
  "get_cache_key md5 prefix_arg symbol kwargs =
     (if ''prefix'' \<in> fst ` set kwargs then None
      else (let key_parts = [prefix_arg, symbol] @ map (\<lambda>kv. fst kv @ ''='' @ snd kv) (sort_key fst kwargs);
                key_string = join ''|'' key_parts
            in Some (md5 key_string)))"

text \<open>\<open>CacheManager._is_cache_valid\<close>, with \<open>datetime.now()\<close> as the last argument.\<close>

definition is_cache_valid :: "'d cache_entry \<Rightarrow> string \<Rightarrow> instant \<Rightarrow> bool" where
  "is_cache_valid cache_data cache_type now =
     (case ce_cached_at cache_data of
        None \<Rightarrow> False
      | Some cached_time \<Rightarrow>
          (let expiry_time = cached_time + ttl_of cache_type * 1000000 in now < expiry_time))"

text \<open>
  The second half of \<open>CacheManager.get\<close>, from \<open># Check file cache\<close> on. A file that
  \<open>json.load\<close> rejects raises; the handler returns \<open>None\<close> and leaves the file.
\<close>

definition read_file_cache ::
  "'d cache_state \<Rightarrow> string \<Rightarrow> string \<Rightarrow> instant \<Rightarrow> 'd option \<times> 'd cache_state" where
  "read_file_cache st cache_key cache_type now =
     (case disk st cache_key of
        None \<Rightarrow> (None, st)
      | Some Corrupt \<Rightarrow> (None, st)
      | Some (Stored cache_data) \<Rightarrow>
          if is_cache_valid cache_data cache_type now
          then (Some (ce_data cache_data),
                st\<lparr>memory_cache := (memory_cache st)(cache_key \<mapsto> cache_data)\<rparr>)
          else (None, st\<lparr>disk := (disk st)(cache_key := None)\<rparr>))"

text \<open>
  \<open>CacheManager.get\<close>. The result \<open>Some d\<close> is the returned \<open>cache_data.get("data")\<close>,
  \<open>None\<close> is the returned \<open>None\<close>.
\<close>

definition cache_get ::
  "(string \<Rightarrow> string) \<Rightarrow> 'd cache_state \<Rightarrow> string \<Rightarrow> string \<Rightarrow> (string \<times> string) list \<Rightarrow>
     instant \<Rightarrow> 'd option \<times> 'd cache_state" where
  "cache_get md5 st cache_type symbol kwargs now =
     (case get_cache_key md5 cache_type symbol kwargs of
        None \<Rightarrow> (None, st)
      | Some cache_key \<Rightarrow>
          (case memory_cache st cache_key of
             Some cache_data \<Rightarrow>
               if is_cache_valid cache_data cache_type now
               then (Some (ce_data cache_data), st)
               else read_file_cache (st\<lparr>memory_cache := (memory_cache st)(cache_key := None)\<rparr>)
                      cache_key cache_type now
           | None \<Rightarrow> read_file_cache st cache_key cache_type now))"

text \<open>
  How the file write of \<open>set\<close> ends: the entry is written, \<open>open\<close> fails and the old
  file stays, or \<open>json.dump\<close> fails after \<open>open(..., 'w')\<close> has truncated the file.
\<close>

datatype write_outcome = WriteOk | OpenFails | DumpFails

text \<open>\<open>CacheManager.set\<close>: the returned flag and the new state.\<close>

definition cache_set ::
  "(string \<Rightarrow> string) \<Rightarrow> 'd cache_state \<Rightarrow> string \<Rightarrow> string \<Rightarrow> 'd \<Rightarrow> (string \<times> string) list \<Rightarrow>
     instant \<Rightarrow> write_outcome \<Rightarrow> bool \<times> 'd cache_state" where
  "cache_set md5 st cache_type symbol data kwargs now outcome =
     (case get_cache_key md5 cache_type symbol kwargs of
        None \<Rightarrow> (False, st)
      | Some cache_key \<Rightarrow>
          (let cache_entry = \<lparr>ce_cached_at = Some now, ce_cache_type = cache_type,
                              ce_symbol = symbol, ce_kwargs = kwargs, ce_data = data\<rparr>;
               st1 = st\<lparr>memory_cache := (memory_cache st)(cache_key \<mapsto> cache_entry)\<rparr>
           in case outcome of
                WriteOk \<Rightarrow> (True, st1\<lparr>disk := (disk st1)(cache_key \<mapsto> Stored cache_entry)\<rparr>)
              | OpenFails \<Rightarrow> (False, st1)
              | DumpFails \<Rightarrow> (False, st1\<lparr>disk := (disk st1)(cache_key \<mapsto> Corrupt)\<rparr>)))"

text \<open>
  The filter of \<open>invalidate\<close>:
  \<open>(cache_type is None or cache_data.get("cache_type") == cache_type) and
    (symbol is None or cache_data.get("symbol") == symbol)\<close>
\<close>

definition entry_matches :: "string option \<Rightarrow> string option \<Rightarrow> 'd cache_entry \<Rightarrow> bool" where
  "entry_matches cache_type symbol cache_data =
     ((cache_type = None \<or> Some (ce_cache_type cache_data) = cache_type) \<and>
      (symbol = None \<or> Some (ce_symbol cache_data) = symbol))"

text \<open>\<open>key in keys_to_remove\<close>: the keys are collected from \<open>self.memory_cache.items()\<close>.\<close>

definition in_keys_to_remove ::
  "'d cache_state \<Rightarrow> string option \<Rightarrow> string option \<Rightarrow> string \<Rightarrow> bool" where
  "in_keys_to_remove st cache_type symbol cache_key =
     (case memory_cache st cache_key of
        None \<Rightarrow> False
      | Some cache_data \<Rightarrow> entry_matches cache_type symbol cache_data)"

text \<open>
  \<open>CacheManager.invalidate\<close>. Without arguments the memory dict is cleared and every
  \<open>*.json\<close> file of the directory is unlinked; otherwise each collected key is deleted
  from the memory dict and its file, when it exists, is unlinked.
\<close>

definition invalidate :: "'d cache_state \<Rightarrow> string option \<Rightarrow> string option \<Rightarrow> 'd cache_state" where
  "invalidate st cache_type symbol =
     (if cache_type = None \<and> symbol = None
      then \<lparr>memory_cache = Map.empty, disk = Map.empty\<rparr>
      else \<lparr>memory_cache =
              (\<lambda>k. if in_keys_to_remove st cache_type symbol k then None else memory_cache st k),
            disk = (\<lambda>k. if in_keys_to_remove st cache_type symbol k then None else disk st k)\<rparr>)"

text \<open>
  \<open>memory_miss\<close>: the memory tier holds no valid entry under the key, so that \<open>get\<close>
  goes on to the file.
\<close>

definition memory_miss :: "'d cache_state \<Rightarrow> string \<Rightarrow> string \<Rightarrow> instant \<Rightarrow> bool" where
  "memory_miss st cache_key cache_type now =
     (case memory_cache st cache_key of
        None \<Rightarrow> True
      | Some cache_data \<Rightarrow> \<not> is_cache_valid cache_data cache_type now)"

text \<open>Sample states. The hash is the identity, so the key is the key string itself.\<close>

definition empty_cache :: "payload cache_state" where
  "empty_cache = \<lparr>memory_cache = Map.empty, disk = Map.empty\<rparr>"

definition quote_entry :: "instant \<Rightarrow> int \<Rightarrow> payload cache_entry" where
  "quote_entry t price =
     \<lparr>ce_cached_at = Some t, ce_cache_type = ''real_time'', ce_symbol = ''RELIANCE'',
      ce_kwargs = [], ce_data = [(''symbol'', JStr ''RELIANCE''), (''price'', JInt price)]\<rparr>"

text \<open>
  The memory tier holds an entry written at instant 0, the file one written 60 seconds
  later, as after a second cache manager on the same directory has stored a newer quote.
\<close>

definition stale_memory_state :: "payload cache_state" where
  "stale_memory_state =
     \<lparr>memory_cache = [''real_time|RELIANCE'' \<mapsto> quote_entry 0 2500],
      disk = [''real_time|RELIANCE'' \<mapsto> Stored (quote_entry 60000000 2510)]\<rparr>"

text \<open>A fresh cache manager on a directory that holds one file: memory is empty.\<close>

definition disk_only_state :: "payload cache_state" where
  "disk_only_state =
     \<lparr>memory_cache = Map.empty,
      disk = [''real_time|RELIANCE'' \<mapsto> Stored (quote_entry 0 2500)]\<rparr>"

text \<open>Both tiers hold the entry written at instant 0.\<close>

definition both_tiers_state :: "payload cache_state" where
  "both_tiers_state =
     \<lparr>memory_cache = [''real_time|RELIANCE'' \<mapsto> quote_entry 0 2500],
      disk = [''real_time|RELIANCE'' \<mapsto> Stored (quote_entry 0 2500)]\<rparr>"

subsection \<open>Orchestrator: real-time price\<close>

text \<open>
  What a call of an adapter's \<open>get_real_time_price\<close> does as seen by the orchestrator:
  it raises, or it returns a value (a dict, or \<open>None\<close>).
\<close>

datatype adapter_outcome = Raises | Returns "payload option"

text \<open>\<open>data and "error" not in data\<close>\<close>

definition is_success :: "payload option \<Rightarrow> bool" where
  "is_success data = (case data of None \<Rightarrow> False | Some d \<Rightarrow> d \<noteq> [] \<and> \<not> has_error d)"

text \<open>\<open>if d:\<close> for a value that is a dict or \<open>None\<close>.\<close>

definition truthy_payload :: "payload option \<Rightarrow> bool" where
  "truthy_payload d = (case d of None \<Rightarrow> False | Some x \<Rightarrow> x \<noteq> [])"

text \<open>\<open>IndianMarketDataAPI.source_priority\<close>\<close>

definition source_priority :: "(string \<times> string list) list" where
  "source_priority =
     [(''real_time'', [''nse'', ''yahoo'']), (''historical'', [''yahoo'', ''nse'']),
      (''indices'', [''nse'', ''yahoo'']), (''company_info'', [''yahoo'', ''nse''])]"

text \<open>
  The \<open>for source in self.source_priority["real_time"]\<close> loop of
  \<open>get_real_time_price\<close>. The accumulator is \<open>(primary_data, fallback_data, called)\<close>,
  \<open>called\<close> listing the adapters consulted so far. An unknown source name and an
  exception \<open>continue\<close>; the \<open>break\<close> stands directly under
  \<open>if data and "error" not in data\<close>, after the inner \<open>if/else\<close>, so the loop ends with
  the first successful result.
\<close>

fun try_sources ::
  "(string \<Rightarrow> adapter_outcome) \<Rightarrow> (string \<Rightarrow> adapter_outcome) \<Rightarrow> string \<Rightarrow> string list \<Rightarrow>
     payload option \<times> payload option \<times> string list \<Rightarrow>
     payload option \<times> payload option \<times> string list" where
  "try_sources nse_get yahoo_get symbol [] acc = acc"
| "try_sources nse_get yahoo_get symbol (source # rest) (primary_data, fallback_data, called) =
     (if source = ''nse'' \<or> source = ''yahoo'' then
        (case (if source = ''nse'' then nse_get symbol else yahoo_get symbol) of
           Raises \<Rightarrow>
             try_sources nse_get yahoo_get symbol rest
               (primary_data, fallback_data, called @ [source])
         | Returns data \<Rightarrow>
             if is_success data then
               (if primary_data = None then (data, fallback_data, called @ [source])
                else (primary_data, data, called @ [source]))
             else try_sources nse_get yahoo_get symbol rest
                    (primary_data, fallback_data, called @ [source]))
      else try_sources nse_get yahoo_get symbol rest (primary_data, fallback_data, called))"

text \<open>
  \<open>normalize_price_data\<close> on an argument that may be \<open>None\<close>: \<open>"error" in None\<close> raises
  \<open>TypeError\<close>, and the handler of \<open>normalize_price_data\<close> returns \<open>None\<close>.
\<close>

definition normalize_price_opt ::
  "float_parser \<Rightarrow> string \<Rightarrow> payload option \<Rightarrow> normalized_price option" where
  "normalize_price_opt float_of_str now_iso raw =
     (case raw of None \<Rightarrow> None | Some d \<Rightarrow> normalize_price_data float_of_str now_iso d)"

text \<open>
  The outcome of one request: the returned value, the cache manager afterwards
  (\<open>None\<close> when the cache is disabled) and the adapters consulted, in order.
\<close>

record price_request =
  pr_value :: "normalized_price option"
  pr_cache :: "payload option cache_state option"
  pr_called :: "string list"

text \<open>
  \<open>IndianMarketDataAPI.get_real_time_price\<close>. The cache stores what \<open>set\<close> is given,
  which the types allow to be \<open>None\<close>. \<open>t_get\<close> and \<open>t_set\<close> are the instants of the
  cache calls, \<open>outcome\<close> is how the file write of \<open>set\<close> ends.
\<close>

definition get_real_time_price ::
  "(string \<Rightarrow> string) \<Rightarrow> float_parser \<Rightarrow> string \<Rightarrow>
   (string \<Rightarrow> adapter_outcome) \<Rightarrow> (string \<Rightarrow> adapter_outcome) \<Rightarrow>
   payload option cache_state option \<Rightarrow> string \<Rightarrow> bool \<Rightarrow> instant \<Rightarrow> instant \<Rightarrow> write_outcome \<Rightarrow>
   price_request" where
  "get_real_time_price md5 float_of_str now_iso nse_get yahoo_get cache_manager symbol use_cache
     t_get t_set outcome =
     (let looked_up =
            (case cache_manager of
               Some st \<Rightarrow>
                 if use_cache
                 then (let r = cache_get md5 st ''real_time'' symbol [] t_get
                       in (fst r, Some (snd r)))
                 else (None, cache_manager)
             | None \<Rightarrow> (None, None));
          cached_data = (case fst looked_up of Some d \<Rightarrow> d | None \<Rightarrow> None);
          cm1 = snd looked_up
      in if truthy_payload cached_data
         then \<lparr>pr_value = normalize_price_opt float_of_str now_iso cached_data,
               pr_cache = cm1, pr_called = []\<rparr>
         else (let loop = try_sources nse_get yahoo_get symbol
                            (case map_of source_priority ''real_time'' of
                               Some l \<Rightarrow> l | None \<Rightarrow> [])
                            (None, None, []);
                   primary_data = fst loop;
                   fallback_data = fst (snd loop);
                   called = snd (snd loop)
               in if truthy_payload primary_data
                  then (let primary_data =
                              (if truthy_payload fallback_data
                               then merge_data_sources primary_data fallback_data
                               else primary_data);
                            cm2 = (case cm1 of
                                     Some st \<Rightarrow>
                                       if use_cache
                                       then Some (snd (cache_set md5 st ''real_time'' symbol
                                                        primary_data [] t_set outcome))
                                       else cm1
                                   | None \<Rightarrow> None)
                        in \<lparr>pr_value = normalize_price_opt float_of_str now_iso primary_data,
                             pr_cache = cm2, pr_called = called\<rparr>)
                  else \<lparr>pr_value = None, pr_cache = cm1, pr_called = called\<rparr>))"

text \<open>Two successful quotes for RELIANCE; the exchange reports no volume, the library does.\<close>

definition nse_quote :: payload where
  "nse_quote =
     [(''symbol'', JStr ''RELIANCE''), (''price'', JFloat 2500.5), (''volume'', JInt 0),
      (''source'', JStr ''nse'')]"

definition yahoo_quote :: payload where
  "yahoo_quote =
     [(''symbol'', JStr ''RELIANCE''), (''price'', JFloat 2500), (''volume'', JInt 120000),
      (''source'', JStr ''yahoo_finance'')]"

definition no_cache_entries :: "payload option cache_state" where
  "no_cache_entries = \<lparr>memory_cache = Map.empty, disk = Map.empty\<rparr>"

text \<open>
  A request for RELIANCE with an empty cache while both adapters would answer with a
  successful quote.
\<close>

definition both_succeed_request :: price_request where
  "both_succeed_request =
     get_real_time_price id (\<lambda>s. None) ''2026-11-04T10:00:00''
       (\<lambda>symbol. Returns (Some nse_quote)) (\<lambda>symbol. Returns (Some yahoo_quote))
       (Some no_cache_entries) ''RELIANCE'' True 0 0 WriteOk"

subsection \<open>Adapters: historical data\<close>

text \<open>\<open>BaseMarketDataClient.validate_period\<close> and \<open>validate_interval\<close>\<close>

definition valid_periods :: "string list" where
  "valid_periods =
     [''1d'', ''5d'', ''1mo'', ''3mo'', ''6mo'', ''1y'', ''2y'', ''5y'', ''10y'', ''ytd'', ''max'']"

definition valid_intervals :: "string list" where
  "valid_intervals =
     [''1m'', ''2m'', ''5m'', ''15m'', ''30m'', ''60m'', ''90m'', ''1h'', ''1d'', ''5d'', ''1wk'',
      ''1mo'', ''3mo'']"

definition validate_period :: "string \<Rightarrow> bool" where
  "validate_period period = (period \<in> set valid_periods)"

definition validate_interval :: "string \<Rightarrow> bool" where
  "validate_interval interval = (interval \<in> set valid_intervals)"

text \<open>
  The network as the adapters see it. A call of the vendor library's
  \<open>ticker.history(period, interval)\<close> raises or returns rows; an HTTP GET raises or
  returns a status and a body, \<open>None\<close> when \<open>response.json()\<close> cannot decode it. Every
  round trip an adapter makes is recorded as a \<open>net_call\<close>, in order.
\<close>

datatype net_call = HttpGet string | YfHistory string string string

text \<open>
  A row of the frame the library returns. The columns are floating-point numbers, also
  \<open>Volume\<close> when the frame has gaps.
\<close>

record ohlcv_row =
  row_timestamp :: string
  row_open :: pyfloat
  row_high :: pyfloat
  row_low :: pyfloat
  row_close :: pyfloat
  row_volume :: pyfloat

datatype yf_result = YfRaises string | YfFrame "ohlcv_row list"

datatype http_response = HttpRaises string | HttpResponse nat "json option"

text \<open>\<open>{"error": str(e), "symbol": symbol}\<close>\<close>

definition error_payload :: "string \<Rightarrow> string \<Rightarrow> payload" where
  "error_payload msg symbol = [(''error'', JStr msg), (''symbol'', JStr symbol)]"

text \<open>
  \<open>int(x)\<close> where a failure is not caught on the spot: \<open>None\<close> stands for the
  \<open>ValueError\<close> of NaN and the \<open>OverflowError\<close> of an infinity.
\<close>

fun to_int :: "pyfloat \<Rightarrow> int option" where
  "to_int (Finite r) = Some (trunc r)"
| "to_int (NonFinite n) = None"

text \<open>
  One round of \<open>for timestamp, row in hist.iterrows()\<close>: the point, or \<open>None\<close> when
  \<open>int(row['Volume'])\<close> raises.
\<close>

definition row_json :: "ohlcv_row \<Rightarrow> json option" where
  "row_json row =
     map_option
       (\<lambda>volume.
          JDict [(''timestamp'', JStr (row_timestamp row)), (''open'', float_json (row_open row)),
                 (''high'', float_json (row_high row)), (''low'', float_json (row_low row)),
                 (''close'', float_json (row_close row)), (''volume'', JInt volume)])
       (to_int (row_volume row))"

text \<open>All rows, or \<open>None\<close> at the first one that raises.\<close>

fun rows_json :: "ohlcv_row list \<Rightarrow> json list option" where
  "rows_json [] = Some []"
| "rows_json (row # rows) =
     (case row_json row of
        None \<Rightarrow> None
      | Some pt \<Rightarrow> (case rows_json rows of None \<Rightarrow> None | Some pts \<Rightarrow> Some (pt # pts)))"

text \<open>
  \<open>YahooFinanceClient.get_historical_data\<close>: the payload and the round trips made.
  The two \<open>raise ValueError\<close> of the validation stand before the first use of the
  library and are caught by the handler of the function.
\<close>

definition yahoo_get_historical_data ::
  "(string \<Rightarrow> string \<Rightarrow> string \<Rightarrow> yf_result) \<Rightarrow> string \<Rightarrow> string \<Rightarrow> string \<Rightarrow>
     payload \<times> net_call list" where
  "yahoo_get_historical_data yf_history symbol period interval =
     (if \<not> validate_period period
      then (error_payload (''Invalid period: '' @ period) symbol, [])
      else if \<not> validate_interval interval
      then (error_payload (''Invalid interval: '' @ interval) symbol, [])
      else (let normalized_symbol = yahoo_normalize_symbol symbol;
                calls = [YfHistory normalized_symbol period interval]
            in case yf_history normalized_symbol period interval of
                 YfRaises msg \<Rightarrow> (error_payload msg symbol, calls)
               | YfFrame rows \<Rightarrow>
                   if rows = []
                   then (error_payload (''No historical data available for '' @ symbol) symbol,
                         calls)
                   else (case rows_json rows of
                           None \<Rightarrow>
                             (error_payload ''cannot convert float to integer'' symbol, calls)
                         | Some data \<Rightarrow>
                             ([(''symbol'', JStr symbol),
                               (''normalized_symbol'', JStr normalized_symbol),
                               (''period'', JStr period), (''interval'', JStr interval),
                               (''data'', JList data),
                               (''count'', JInt (int (length data))),
                               (''source'', JStr ''yahoo_finance'')], calls))))"

text \<open>
  \<open>float(x)\<close> where a failure is not caught on the spot: \<open>None\<close> stands for the
  \<open>TypeError\<close>, \<open>ValueError\<close> or \<open>OverflowError\<close>.
\<close>

fun to_float :: "float_parser \<Rightarrow> json \<Rightarrow> pyfloat option" where
  "to_float float_of_str JNull = None"
| "to_float float_of_str (JBool b) = Some (Finite (if b then 1 else 0))"
| "to_float float_of_str (JInt i) = map_option Finite (float_of_int i)"
| "to_float float_of_str (JFloat r) = Some (Finite r)"
| "to_float float_of_str (JNonFinite n) = Some (NonFinite n)"
| "to_float float_of_str (JStr s) = float_of_str s"
| "to_float float_of_str (JList xs) = None"
| "to_float float_of_str (JDict d) = None"

text \<open>
  \<open>for item in chart_data\<close>: a list gives its elements, a string its characters, a dict
  its keys; anything else is not iterable (\<open>None\<close>).
\<close>

fun chart_items :: "json \<Rightarrow> json list option" where
  "chart_items (JList xs) = Some xs"
| "chart_items (JStr s) = Some (map (\<lambda>c. JStr [c]) s)"
| "chart_items (JDict d) = Some (map (\<lambda>kv. JStr (fst kv)) d)"
| "chart_items _ = None"

text \<open>
  \<open>{"timestamp": item[0], "price": float(item[1])}\<close>; \<open>None\<close> when the indexing or the
  conversion raises.
\<close>

fun parse_chart_item :: "float_parser \<Rightarrow> json \<Rightarrow> json option" where
  "parse_chart_item float_of_str (JList (x0 # x1 # xs)) =
     (case to_float float_of_str x1 of
        Some x \<Rightarrow> Some (JDict [(''timestamp'', x0), (''price'', float_json x)])
      | None \<Rightarrow> None)"
| "parse_chart_item float_of_str (JStr (c0 # c1 # cs)) =
     (case float_of_str [c1] of
        Some x \<Rightarrow> Some (JDict [(''timestamp'', JStr [c0]), (''price'', float_json x)])
      | None \<Rightarrow> None)"
| "parse_chart_item float_of_str _ = None"

text \<open>All items, or \<open>None\<close> at the first one that raises.\<close>

fun parse_chart_items :: "float_parser \<Rightarrow> json list \<Rightarrow> json list option" where
  "parse_chart_items float_of_str [] = Some []"
| "parse_chart_items float_of_str (item # items) =
     (case parse_chart_item float_of_str item of
        None \<Rightarrow> None
      | Some pt \<Rightarrow>
          (case parse_chart_items float_of_str items of
             None \<Rightarrow> None
           | Some pts \<Rightarrow> Some (pt # pts)))"

text \<open>
  \<open>NSEClient._parse_historical_data\<close>. Its handler returns \<open>{"error": str(e)}\<close>; the text
  of a library exception is represented by a fixed string.
\<close>

definition parse_historical_data ::
  "float_parser \<Rightarrow> json \<Rightarrow> string \<Rightarrow> string \<Rightarrow> string \<Rightarrow> payload" where
  "parse_historical_data float_of_str data symbol period interval =
     (case data of
        JDict d \<Rightarrow>
          (case chart_items (get_or d ''grapthData'' (JList [])) of
             None \<Rightarrow> [(''error'', JStr ''object is not iterable'')]
           | Some items \<Rightarrow>
               (case parse_chart_items float_of_str items of
                  None \<Rightarrow> [(''error'', JStr ''malformed chart item'')]
                | Some parsed_data \<Rightarrow>
                    [(''symbol'', JStr symbol), (''period'', JStr period),
                     (''interval'', JStr interval), (''data'', JList parsed_data),
                     (''count'', JInt (int (length parsed_data))), (''source'', JStr ''nse''),
                     (''note'', JStr ''NSE provides limited historical data'')]))
      | _ \<Rightarrow> [(''error'', JStr ''object has no attribute get'')])"

text \<open>
  \<open>NSEClient._get_session\<close>: the round trips it makes. Without a session one is created
  and the exchange home page is fetched for cookies, a failure being logged only.
\<close>

definition nse_get_session :: "bool \<Rightarrow> net_call list" where
  "nse_get_session has_session = (if has_session then [] else [HttpGet ''https://www.nseindia.com''])"

text \<open>
  \<open>NSEClient.get_historical_data\<close>: the payload and the round trips made. The body
  starts with \<open>_get_session\<close> and the chart request; \<open>period\<close> and \<open>interval\<close> are only
  handed to \<open>_parse_historical_data\<close>.
\<close>

definition nse_get_historical_data ::
  "float_parser \<Rightarrow> (string \<Rightarrow> http_response) \<Rightarrow> bool \<Rightarrow> string \<Rightarrow> string \<Rightarrow> string \<Rightarrow>
     payload \<times> net_call list" where
  "nse_get_historical_data float_of_str http_get has_session symbol period interval =
     (let session_calls = nse_get_session has_session;
          normalized_symbol = nse_normalize_symbol symbol;
          url = ''https://www.nseindia.com/api/chart-databyindex?index='' @ normalized_symbol @
                ''EQN&indices=true'';
          calls = session_calls @ [HttpGet url]
      in case http_get url of
           HttpRaises msg \<Rightarrow> (error_payload msg symbol, calls)
         | HttpResponse status body \<Rightarrow>
             if status = 200
             then (case body of
                     None \<Rightarrow> (error_payload ''response is not JSON'' symbol, calls)
                   | Some data \<Rightarrow>
                       (parse_historical_data float_of_str data symbol period interval, calls))
             else (error_payload (''No historical data available for '' @ symbol) symbol, calls))"

text \<open>An exchange that answers every chart request with one point.\<close>

definition chart_server :: "string \<Rightarrow> http_response" where
  "chart_server url =
     HttpResponse 200
       (Some (JDict [(''grapthData'', JList [JList [JInt 1762250400000, JFloat 2501]])]))"

section \<open>Theorems\<close>

subsection \<open>Market hours\<close>

lemma weekday_replace_hm: "weekday (replace_hm d h m) = weekday d"
  by (simp add: weekday_def replace_hm_def)

lemma dt_le_refl: "dt_le a a"
  by (simp add: dt_le_def)

lemma replace_hm_idem: "replace_hm (replace_hm d h m) h' m' = replace_hm d h' m'"
  by (simp add: replace_hm_def)

lemma open_le_close: "dt_le (replace_hm d 9 15) (replace_hm d 15 30)"
  by (simp add: dt_le_def replace_hm_def)

text \<open>
  Claim C10. The trading window is closed at both ends for both adapters: on a weekday
  (Monday to Friday, \<open>weekday < 5\<close>) \<open>is_market_open\<close> is true at exactly 09:15:00.000000
  and at exactly 15:30:00.000000, and on Saturday and Sunday (\<open>weekday \<ge> 5\<close>) it is
  false whatever the time of day.
\<close>

theorem is_market_open_boundaries:
  "(weekday d < 5 \<longrightarrow>
      yahoo_is_market_open (replace_hm d 9 15) \<and> yahoo_is_market_open (replace_hm d 15 30) \<and>
      nse_is_market_open (replace_hm d 9 15) \<and> nse_is_market_open (replace_hm d 15 30)) \<and>
   (5 \<le> weekday d \<longrightarrow> \<not> yahoo_is_market_open d \<and> \<not> nse_is_market_open d)"
proof (intro conjI impI)
  assume wd: "weekday d < 5"
  show "yahoo_is_market_open (replace_hm d 9 15)"
    using wd by (simp add: yahoo_is_market_open_def weekday_replace_hm replace_hm_idem
        dt_le_refl open_le_close)
  show "yahoo_is_market_open (replace_hm d 15 30)"
    using wd by (simp add: yahoo_is_market_open_def weekday_replace_hm replace_hm_idem
        dt_le_refl open_le_close)
  show "nse_is_market_open (replace_hm d 9 15)"
    using wd by (simp add: nse_is_market_open_def weekday_replace_hm replace_hm_idem
        dt_le_refl open_le_close)
  show "nse_is_market_open (replace_hm d 15 30)"
    using wd by (simp add: nse_is_market_open_def weekday_replace_hm replace_hm_idem
        dt_le_refl open_le_close)
next
  assume "5 \<le> weekday d"
  then show "\<not> yahoo_is_market_open d" by (simp add: yahoo_is_market_open_def)
next
  assume "5 \<le> weekday d"
  then show "\<not> nse_is_market_open d" by (simp add: nse_is_market_open_def)
qed

text \<open>
  Wednesday 2026-11-04 (ordinal 739924) at the two boundary instants, and Saturday
  2026-11-07 (ordinal 739927) at noon.
\<close>

theorem is_market_open_boundaries_witness:
  "weekday \<lparr>ordinal = 739924, hour = 12, minute = 0, second = 0, microsecond = 0\<rparr> < 5 \<and>
   yahoo_is_market_open \<lparr>ordinal = 739924, hour = 9, minute = 15, second = 0, microsecond = 0\<rparr> \<and>
   nse_is_market_open \<lparr>ordinal = 739924, hour = 15, minute = 30, second = 0, microsecond = 0\<rparr> \<and>
   5 \<le> weekday \<lparr>ordinal = 739927, hour = 12, minute = 0, second = 0, microsecond = 0\<rparr> \<and>
   \<not> yahoo_is_market_open \<lparr>ordinal = 739927, hour = 12, minute = 0, second = 0, microsecond = 0\<rparr> \<and>
   \<not> nse_is_market_open \<lparr>ordinal = 739927, hour = 12, minute = 0, second = 0, microsecond = 0\<rparr>"
proof -
  have wd: "weekday \<lparr>ordinal = 739924, hour = 12, minute = 0, second = 0, microsecond = 0\<rparr> < 5"
    by (simp add: weekday_def)
  have we: "5 \<le> weekday \<lparr>ordinal = 739927, hour = 12, minute = 0, second = 0, microsecond = 0\<rparr>"
    by (simp add: weekday_def)
  show ?thesis
    using wd we
      is_market_open_boundaries
        [of "\<lparr>ordinal = 739924, hour = 12, minute = 0, second = 0, microsecond = 0\<rparr>"]
      is_market_open_boundaries
        [of "\<lparr>ordinal = 739927, hour = 12, minute = 0, second = 0, microsecond = 0\<rparr>"]
    by (simp add: replace_hm_def)
qed

subsection \<open>Quality scoring\<close>

lemma score_price_value:
  "fst (score_price p) =
     100 - (if float_le_zero (np_price p) then 30 else 0) - (if np_volume p \<le> 0 then 10 else 0)
         - (if truthy (np_timestamp p) then 0 else 20)
         - (if float_abs_gt (np_change_percent p) 20 then 5 else 0)"
  by (simp add: score_price_def deduct_def)

lemma score_price_lower: "35 \<le> fst (score_price p)"
  by (simp add: score_price_value)

lemma gap_test_exact:
  "(real n < real_of_int c * 0.9) = (10 * int n < 9 * c)"
proof -
  have "(real n < real_of_int c * 0.9) = (real n * 10 < real_of_int c * 9)"
    by (simp add: field_simps)
  also have "\<dots> = (real_of_int (10 * int n) < real_of_int (9 * c))"
    by (simp add: mult.commute)
  also have "\<dots> = (10 * int n < 9 * c)"
    by (simp only: of_int_less_iff)
  finally show ?thesis .
qed

text \<open>The timestamps collected are those of the points whose \<open>timestamp\<close> entry is truthy.\<close>

lemma length_timestamps_of:
  "length (timestamps_of pts) =
     length (filter (\<lambda>pt. case map_of pt ''timestamp'' of None \<Rightarrow> False | Some v \<Rightarrow> truthy v) pts)"
proof -
  have "(\<lambda>pt. truthy (get_none pt ''timestamp'')) =
        (\<lambda>pt. case map_of pt ''timestamp'' of None \<Rightarrow> False | Some v \<Rightarrow> truthy v)"
    by (rule ext) (simp add: get_none_def get_or_def split: option.splits)
  then show ?thesis by (simp add: timestamps_of_def)
qed

lemma score_historical_value:
  "fst (score_historical h) =
     (if nh_count h = 0 then 0
      else 100 - (if nh_count h < 10 then 20 else 0)
               - (if 10 * int (length (filter (\<lambda>pt. case map_of pt ''timestamp'' of
                                                      None \<Rightarrow> False | Some v \<Rightarrow> truthy v)
                                        (nh_data h))) < 9 * nh_count h
                  then 15 else 0))"
  by (simp add: score_historical_def deduct_def Let_def gap_test_exact length_timestamps_of)

lemma score_historical_lower: "0 \<le> fst (score_historical h)"
  by (simp add: score_historical_value)

lemma quality_score_is_raw:
  "quality_score (validate_data_quality d) =
     fst (case d of QPrice p \<Rightarrow> score_price p | QHistorical h \<Rightarrow> score_historical h
          | QDict _ \<Rightarrow> (100, []))"
proof (cases d)
  case (QPrice p)
  have "0 \<le> fst (score_price p)" using score_price_lower [of p] by simp
  then show ?thesis using QPrice by (simp add: validate_data_quality_def Let_def)
next
  case (QHistorical h)
  then show ?thesis
    using score_historical_lower [of h] by (simp add: validate_data_quality_def Let_def)
next
  case (QDict x)
  then show ?thesis by (simp add: validate_data_quality_def)
qed

lemma is_valid_iff_score:
  "is_valid (validate_data_quality d) = (50 \<le> quality_score (validate_data_quality d))"
proof -
  have "is_valid (validate_data_quality d) =
          (50 \<le> fst (case d of QPrice p \<Rightarrow> score_price p | QHistorical h \<Rightarrow> score_historical h
                       | QDict _ \<Rightarrow> (100, [])))"
    by (simp add: validate_data_quality_def Let_def)
  then show ?thesis by (simp add: quality_score_is_raw)
qed

lemma price_score:
  "quality_score (validate_data_quality (QPrice p)) =
     100 - (if float_le_zero (np_price p) then 30 else 0) - (if np_volume p \<le> 0 then 10 else 0)
         - (if truthy (np_timestamp p) then 0 else 20)
         - (if float_abs_gt (np_change_percent p) 20 then 5 else 0)"
  by (simp only: quality_score_is_raw quality_input.case score_price_value)

lemma series_score:
  "quality_score (validate_data_quality (QHistorical h)) =
     (if nh_count h = 0 then 0
      else 100 - (if nh_count h < 10 then 20 else 0)
               - (if 10 * int (length (filter (\<lambda>pt. case map_of pt ''timestamp'' of
                                                      None \<Rightarrow> False | Some v \<Rightarrow> truthy v)
                                        (nh_data h))) < 9 * nh_count h
                  then 15 else 0))"
  by (simp only: quality_score_is_raw quality_input.case score_historical_value)


text \<open>
  Claim C4, amended. For a price record the score is 100 minus 30 for a non-positive
  price, minus 10 for a non-positive volume, minus 20 for a missing timestamp (\<open>None\<close>
  or the empty string, any falsy value), minus 5 when \<open>|change_percent| > 20\<close>. For a
  historical series the rules read the \<open>count\<close> field of the record, not the number of
  points it holds: a count of zero forces the score to 0; otherwise a count below 10
  costs 20, and fewer points with a truthy \<open>timestamp\<close> entry than 90 percent of the
  count cost a further 15. \<open>is_valid\<close> holds exactly when the reported score is at
  least 50. Hence a price record with price 0, volume 0, a timestamp and
  change_percent 0 scores 60 and is valid; a series whose count is zero scores 0 and is
  invalid; and when the count equals the number of points, as the adapters produce it,
  the same rules hold of the points, so that a series with zero points scores 0 and is
  invalid.
\<close>

theorem validate_data_quality_rules:
  "quality_score (validate_data_quality (QPrice p)) =
     100 - (if float_le_zero (np_price p) then 30 else 0) - (if np_volume p \<le> 0 then 10 else 0)
         - (if truthy (np_timestamp p) then 0 else 20)
         - (if float_abs_gt (np_change_percent p) 20 then 5 else 0) \<and>
   (np_price p = Finite x \<and> np_change_percent p = Finite c \<and>
    (np_timestamp p = JNull \<or> np_timestamp p = JStr []) \<longrightarrow>
      quality_score (validate_data_quality (QPrice p)) =
        100 - (if x \<le> 0 then 30 else 0) - (if np_volume p \<le> 0 then 10 else 0) - 20
            - (if \<bar>c\<bar> > 20 then 5 else 0)) \<and>
   (np_price p = Finite x \<and> np_change_percent p = Finite c \<and>
    np_timestamp p = JStr ts \<and> ts \<noteq> [] \<longrightarrow>
      quality_score (validate_data_quality (QPrice p)) =
        100 - (if x \<le> 0 then 30 else 0) - (if np_volume p \<le> 0 then 10 else 0)
            - (if \<bar>c\<bar> > 20 then 5 else 0)) \<and>
   quality_score (validate_data_quality (QHistorical h)) =
     (if nh_count h = 0 then 0
      else 100 - (if nh_count h < 10 then 20 else 0)
               - (if 10 * int (length (filter (\<lambda>pt. case map_of pt ''timestamp'' of
                                                      None \<Rightarrow> False | Some v \<Rightarrow> truthy v)
                                        (nh_data h))) < 9 * nh_count h
                  then 15 else 0)) \<and>
   is_valid (validate_data_quality d) = (50 \<le> quality_score (validate_data_quality d)) \<and>
   (nh_count h = int (length (nh_data h)) \<longrightarrow>
      quality_score (validate_data_quality (QHistorical h)) =
        (if nh_data h = [] then 0
         else 100 - (if length (nh_data h) < 10 then 20 else 0)
                  - (if 10 * length (filter (\<lambda>pt. case map_of pt ''timestamp'' of
                                                     None \<Rightarrow> False | Some v \<Rightarrow> truthy v)
                                       (nh_data h)) < 9 * length (nh_data h)
                     then 15 else 0))) \<and>
   (np_price p = Finite 0 \<and> np_volume p = 0 \<and> truthy (np_timestamp p) \<and>
    np_change_percent p = Finite 0 \<longrightarrow>
      quality_score (validate_data_quality (QPrice p)) = 60 \<and>
      is_valid (validate_data_quality (QPrice p))) \<and>
   (nh_count h = 0 \<longrightarrow>
      quality_score (validate_data_quality (QHistorical h)) = 0 \<and>
      \<not> is_valid (validate_data_quality (QHistorical h))) \<and>
   (nh_count h = int (length (nh_data h)) \<and> nh_data h = [] \<longrightarrow>
      quality_score (validate_data_quality (QHistorical h)) = 0 \<and>
      \<not> is_valid (validate_data_quality (QHistorical h)))"
proof -
  let ?stamped = "\<lambda>pt. case map_of pt ''timestamp'' of None \<Rightarrow> False | Some v \<Rightarrow> truthy v"
  have P: "quality_score (validate_data_quality (QPrice p)) =
     100 - (if float_le_zero (np_price p) then 30 else 0) - (if np_volume p \<le> 0 then 10 else 0)
         - (if truthy (np_timestamp p) then 0 else 20)
         - (if float_abs_gt (np_change_percent p) 20 then 5 else 0)"
    by (rule price_score)
  have P1: "np_price p = Finite x \<and> np_change_percent p = Finite c \<and>
    (np_timestamp p = JNull \<or> np_timestamp p = JStr []) \<longrightarrow>
      quality_score (validate_data_quality (QPrice p)) =
        100 - (if x \<le> 0 then 30 else 0) - (if np_volume p \<le> 0 then 10 else 0) - 20
            - (if \<bar>c\<bar> > 20 then 5 else 0)"
    by (auto simp: P)
  have P2: "np_price p = Finite x \<and> np_change_percent p = Finite c \<and>
    np_timestamp p = JStr ts \<and> ts \<noteq> [] \<longrightarrow>
      quality_score (validate_data_quality (QPrice p)) =
        100 - (if x \<le> 0 then 30 else 0) - (if np_volume p \<le> 0 then 10 else 0)
            - (if \<bar>c\<bar> > 20 then 5 else 0)"
    by (auto simp: P)
  have H: "quality_score (validate_data_quality (QHistorical h)) =
     (if nh_count h = 0 then 0
      else 100 - (if nh_count h < 10 then 20 else 0)
               - (if 10 * int (length (filter ?stamped (nh_data h))) < 9 * nh_count h
                  then 15 else 0))"
    by (rule series_score)
  have V: "is_valid (validate_data_quality d) = (50 \<le> quality_score (validate_data_quality d))"
    by (rule is_valid_iff_score)
  have HP: "nh_count h = int (length (nh_data h)) \<longrightarrow>
      quality_score (validate_data_quality (QHistorical h)) =
        (if nh_data h = [] then 0
         else 100 - (if length (nh_data h) < 10 then 20 else 0)
                  - (if 10 * length (filter ?stamped (nh_data h)) < 9 * length (nh_data h)
                     then 15 else 0))"
  proof
    assume c: "nh_count h = int (length (nh_data h))"
    have g: "(10 * int (length (filter ?stamped (nh_data h))) < 9 * int (length (nh_data h))) =
             (10 * length (filter ?stamped (nh_data h)) < 9 * length (nh_data h))"
      by linarith
    show "quality_score (validate_data_quality (QHistorical h)) =
        (if nh_data h = [] then 0
         else 100 - (if length (nh_data h) < 10 then 20 else 0)
                  - (if 10 * length (filter ?stamped (nh_data h)) < 9 * length (nh_data h)
                     then 15 else 0))"
      unfolding H c g by simp
  qed
  have E1: "np_price p = Finite 0 \<and> np_volume p = 0 \<and> truthy (np_timestamp p) \<and>
    np_change_percent p = Finite 0 \<longrightarrow>
      quality_score (validate_data_quality (QPrice p)) = 60 \<and>
      is_valid (validate_data_quality (QPrice p))"
    by (simp add: is_valid_iff_score P)
  have E2: "nh_count h = 0 \<longrightarrow>
      quality_score (validate_data_quality (QHistorical h)) = 0 \<and>
      \<not> is_valid (validate_data_quality (QHistorical h))"
    by (simp add: is_valid_iff_score H)
  have E3: "nh_count h = int (length (nh_data h)) \<and> nh_data h = [] \<longrightarrow>
      quality_score (validate_data_quality (QHistorical h)) = 0 \<and>
      \<not> is_valid (validate_data_quality (QHistorical h))"
    by (simp add: is_valid_iff_score H)
  from P P1 P2 H V HP E1 E2 E3 show ?thesis by (intro conjI)
qed


lemma sample_quote_fields:
  "np_price (sample_quote a b t c) = a" "np_volume (sample_quote a b t c) = b"
  "np_timestamp (sample_quote a b t c) = t" "np_change_percent (sample_quote a b t c) = c"
  by (simp_all add: sample_quote_def)

lemma sample_points:
  "map_of stamped_point ''timestamp'' = Some (JStr ''2026-11-03T00:00:00'')"
  "map_of bare_point ''timestamp'' = Some JNull"
  by (simp_all add: stamped_point_def bare_point_def)

lemma sample_series_facts:
  "nh_count (sample_series k m c) = c"
  "length (nh_data (sample_series k m c)) = k + m"
  "(nh_data (sample_series k m c) = []) = (k = 0 \<and> m = 0)"
  "length (filter (\<lambda>pt. case map_of pt ''timestamp'' of None \<Rightarrow> False | Some v \<Rightarrow> truthy v)
             (nh_data (sample_series k m c))) = k"
  by (simp_all add: sample_series_def sample_points)

text \<open>
  Quotes with a missing timestamp, with a large move and with a negative price, and
  series of 0, 5 and 10 points of which all, nine, eight or three carry a timestamp.
\<close>

theorem validate_data_quality_rules_witness:
  "quality_score (validate_data_quality (QPrice zero_quote)) = 60 \<and>
   is_valid (validate_data_quality (QPrice zero_quote)) \<and>
   quality_score (validate_data_quality
     (QPrice (sample_quote (Finite 100) 5 JNull (Finite 0)))) = 80 \<and>
   quality_score (validate_data_quality
     (QPrice (sample_quote (Finite 100) 5 (JStr []) (Finite 25)))) = 75 \<and>
   quality_score (validate_data_quality
     (QPrice (sample_quote (Finite 100) 5 (JStr ''2026-11-04T10:00:00'') (Finite (- 25))))) = 95 \<and>
   quality_score (validate_data_quality
     (QPrice (sample_quote (Finite (- 1)) 5 (JStr ''2026-11-04T10:00:00'') (Finite 20)))) = 70 \<and>
   quality_score (validate_data_quality (QHistorical (sample_series 0 0 0))) = 0 \<and>
   \<not> is_valid (validate_data_quality (QHistorical (sample_series 0 0 0))) \<and>
   quality_score (validate_data_quality (QHistorical (sample_series 10 0 10))) = 100 \<and>
   is_valid (validate_data_quality (QHistorical (sample_series 10 0 10))) \<and>
   quality_score (validate_data_quality (QHistorical (sample_series 9 1 10))) = 100 \<and>
   quality_score (validate_data_quality (QHistorical (sample_series 8 2 10))) = 85 \<and>
   quality_score (validate_data_quality (QHistorical (sample_series 5 0 5))) = 80 \<and>
   quality_score (validate_data_quality (QHistorical (sample_series 3 2 5))) = 65"
proof -
  note T = validate_data_quality_rules
  have a: "quality_score (validate_data_quality (QPrice zero_quote)) = 60 \<and>
      is_valid (validate_data_quality (QPrice zero_quote))"
    using T [of zero_quote 0 0 "[]" "sample_series 0 0 0" "QPrice zero_quote"]
    by (simp add: zero_quote_def sample_quote_fields)
  have b: "quality_score (validate_data_quality
     (QPrice (sample_quote (Finite 100) 5 JNull (Finite 0)))) = 80"
    using T [of "sample_quote (Finite 100) 5 JNull (Finite 0)" 100 0 "[]" "sample_series 0 0 0"
               "QPrice zero_quote", THEN conjunct2, THEN conjunct1]
    by (simp add: sample_quote_fields)
  have c: "quality_score (validate_data_quality
     (QPrice (sample_quote (Finite 100) 5 (JStr []) (Finite 25)))) = 75"
    using T [of "sample_quote (Finite 100) 5 (JStr []) (Finite 25)" 100 25 "[]"
               "sample_series 0 0 0" "QPrice zero_quote", THEN conjunct2, THEN conjunct1]
    by (simp add: sample_quote_fields)
  have d: "quality_score (validate_data_quality
     (QPrice (sample_quote (Finite 100) 5 (JStr ''2026-11-04T10:00:00'') (Finite (- 25))))) = 95"
    using T [of "sample_quote (Finite 100) 5 (JStr ''2026-11-04T10:00:00'') (Finite (- 25))"
               100 "- 25" "''2026-11-04T10:00:00''" "sample_series 0 0 0" "QPrice zero_quote",
             THEN conjunct2, THEN conjunct2, THEN conjunct1]
    by (simp add: sample_quote_fields)
  have e: "quality_score (validate_data_quality
     (QPrice (sample_quote (Finite (- 1)) 5 (JStr ''2026-11-04T10:00:00'') (Finite 20)))) = 70"
    using T [of "sample_quote (Finite (- 1)) 5 (JStr ''2026-11-04T10:00:00'') (Finite 20)"
               "- 1" 20 "''2026-11-04T10:00:00''" "sample_series 0 0 0" "QPrice zero_quote",
             THEN conjunct2, THEN conjunct2, THEN conjunct1]
    by (simp add: sample_quote_fields)
  have f: "quality_score (validate_data_quality (QHistorical (sample_series 0 0 0))) = 0 \<and>
      \<not> is_valid (validate_data_quality (QHistorical (sample_series 0 0 0)))"
    using T [of zero_quote 0 0 "[]" "sample_series 0 0 0" "QPrice zero_quote",
             THEN conjunct2, THEN conjunct2, THEN conjunct2, THEN conjunct2, THEN conjunct2,
             THEN conjunct2, THEN conjunct2, THEN conjunct2]
    by (simp add: sample_series_facts)
  have series: "quality_score (validate_data_quality (QHistorical (sample_series k m (int (k + m))))) =
      (if k = 0 \<and> m = 0 then 0
       else 100 - (if k + m < 10 then 20 else 0) - (if 10 * k < 9 * (k + m) then 15 else 0))"
    for k m
    using T [of zero_quote 0 0 "[]" "sample_series k m (int (k + m))" "QPrice zero_quote",
             THEN conjunct2, THEN conjunct2, THEN conjunct2, THEN conjunct2, THEN conjunct2,
             THEN conjunct1]
    by (simp add: sample_series_facts)
  have g: "quality_score (validate_data_quality (QHistorical (sample_series 10 0 10))) = 100"
    using series [of 10 0] by simp
  have g': "is_valid (validate_data_quality (QHistorical (sample_series 10 0 10)))"
    using T [of zero_quote 0 0 "[]" "sample_series 0 0 0" "QHistorical (sample_series 10 0 10)",
             THEN conjunct2, THEN conjunct2, THEN conjunct2, THEN conjunct2, THEN conjunct1] g
    by simp
  have h: "quality_score (validate_data_quality (QHistorical (sample_series 9 1 10))) = 100"
    using series [of 9 1] by simp
  have i: "quality_score (validate_data_quality (QHistorical (sample_series 8 2 10))) = 85"
    using series [of 8 2] by simp
  have j: "quality_score (validate_data_quality (QHistorical (sample_series 5 0 5))) = 80"
    using series [of 5 0] by simp
  have k: "quality_score (validate_data_quality (QHistorical (sample_series 3 2 5))) = 65"
    using series [of 3 2] by simp
  from a b c d e f g g' h i j k show ?thesis by (intro conjI) simp_all
qed

text \<open>
  Claim C4 as stated fails for a series whose \<open>count\<close> field differs from the number of
  its points: with no points at all and a count of 7 the score is 100 - 20 - 15 = 65
  and the series is valid, not 0 and invalid.
\<close>

theorem validate_data_quality_reads_count:
  "nh_data (sample_series 0 0 7) = [] \<and>
   quality_score (validate_data_quality (QHistorical (sample_series 0 0 7))) = 65 \<and>
   is_valid (validate_data_quality (QHistorical (sample_series 0 0 7)))"
proof -
  have s: "quality_score (validate_data_quality (QHistorical (sample_series 0 0 7))) = 65"
    by (simp add: series_score sample_series_facts)
  then have v: "is_valid (validate_data_quality (QHistorical (sample_series 0 0 7)))"
    by (simp add: is_valid_iff_score)
  have "nh_data (sample_series 0 0 7) = []" by (simp add: sample_series_facts)
  with s v show ?thesis by simp
qed

subsection \<open>Symbol normalization\<close>

lemma upper_char_cases:
  "c \<in> set ''abcdefghijklmnopqrstuvwxyz'' \<or> upper_char c = c"
  by (auto simp: upper_char_def split: option.splits if_splits)

lemma upper_char_idem: "upper_char (upper_char c) = upper_char c"
proof -
  consider "c \<in> set ''abcdefghijklmnopqrstuvwxyz''" | "upper_char c = c"
    using upper_char_cases by blast
  then show ?thesis
  proof cases
    case 1
    then show ?thesis by (auto simp: upper_char_def)
  next
    case 2
    then show ?thesis by simp
  qed
qed

lemma is_space_upper_char: "is_space (upper_char c) = is_space c"
proof -
  consider "c \<in> set ''abcdefghijklmnopqrstuvwxyz''" | "upper_char c = c"
    using upper_char_cases by blast
  then show ?thesis
  proof cases
    case 1
    then show ?thesis by (auto simp: upper_char_def is_space_def)
  next
    case 2
    then show ?thesis by simp
  qed
qed

lemma upper_idem: "upper (upper s) = upper s"
  by (simp add: upper_def upper_char_idem)

lemma upper_append: "upper (a @ b) = upper a @ upper b"
  by (simp add: upper_def)

lemma upper_take: "upper (take n s) = take n (upper s)"
  by (simp add: upper_def take_map)

lemma length_upper: "length (upper s) = length s"
  by (simp add: upper_def)

lemma dropWhile_space_upper: "dropWhile is_space (upper s) = upper (dropWhile is_space s)"
proof -
  have "is_space \<circ> upper_char = is_space"
    by (rule ext) (simp add: is_space_upper_char)
  then show ?thesis by (simp add: upper_def dropWhile_map)
qed

lemma strip_upper: "strip (upper s) = upper (strip s)"
proof -
  have "rev (upper x) = upper (rev x)" for x
    by (simp add: upper_def rev_map)
  then show ?thesis
    by (simp add: strip_def dropWhile_space_upper)
qed

text \<open>A string is trimmed when it neither starts nor ends with a whitespace character.\<close>

lemma last_dropWhile_eq:
  assumes "dropWhile P xs \<noteq> []"
  shows "last (dropWhile P xs) = last xs"
proof -
  obtain zs where "xs = zs @ dropWhile P xs"
    using suffix_dropWhile [of P xs] by (auto simp: suffix_def)
  then have "last xs = last (zs @ dropWhile P xs)" by simp
  also have "\<dots> = last (dropWhile P xs)" using assms by simp
  finally show ?thesis by simp
qed

lemma strip_trimmed:
  "strip s = [] \<or> (\<not> is_space (hd (strip s)) \<and> \<not> is_space (last (strip s)))"
proof (cases "strip s = []")
  case True
  then show ?thesis by simp
next
  case False
  define a where "a = dropWhile is_space s"
  define b where "b = dropWhile is_space (rev a)"
  have sb: "strip s = rev b" by (simp add: strip_def a_def b_def)
  with False have bne: "b \<noteq> []" by simp
  then have rane: "rev a \<noteq> []" by (auto simp: b_def)
  then have ane: "a \<noteq> []" by simp
  have "\<not> is_space (hd b)" using bne unfolding b_def by (rule hd_dropWhile)
  then have l: "\<not> is_space (last (strip s))" using bne by (simp add: sb last_rev)
  have "last b = last (rev a)" using bne unfolding b_def by (rule last_dropWhile_eq)
  also have "\<dots> = hd a" using ane by (simp add: last_rev)
  finally have "hd (strip s) = hd a" using bne by (simp add: sb hd_rev)
  moreover have "\<not> is_space (hd a)" using ane unfolding a_def by (rule hd_dropWhile)
  ultimately show ?thesis using l by simp
qed

lemma trimmed_strip_id:
  assumes "t = [] \<or> (\<not> is_space (hd t) \<and> \<not> is_space (last t))"
  shows "strip t = t"
proof (cases "t = []")
  case True
  then show ?thesis by (simp add: strip_def)
next
  case False
  with assms have h: "\<not> is_space (hd t)" and l: "\<not> is_space (last t)" by auto
  have 1: "dropWhile is_space t = t" using False h by (cases t) auto
  have "rev t \<noteq> []" using False by simp
  moreover have "hd (rev t) = last t" using False by (simp add: hd_rev)
  ultimately obtain y ys where "rev t = y # ys" and "\<not> is_space y"
    using l by (cases "rev t") auto
  then have 2: "dropWhile is_space (rev t) = rev t" by simp
  show ?thesis by (simp add: strip_def 1 2)
qed

lemma strip_idem: "strip (strip s) = strip s"
  by (rule trimmed_strip_id) (rule strip_trimmed)

lemma canon_idem: "upper (strip (upper (strip s))) = upper (strip s)"
  by (simp add: strip_upper strip_idem upper_idem)

lemma canon_fix: "upper (upper (strip s)) = upper (strip s)" "strip (upper (strip s)) = upper (strip s)"
  by (simp_all add: strip_upper strip_idem upper_idem)

lemma strip_append_NS:
  assumes "strip t = t"
  shows "strip (t @ ''.NS'') = t @ ''.NS''"
proof (rule trimmed_strip_id)
  have tr: "t = [] \<or> (\<not> is_space (hd t) \<and> \<not> is_space (last t))"
    using strip_trimmed [of t] assms by simp
  have "\<not> is_space CHR ''.''" "\<not> is_space CHR ''S''" by (simp_all add: is_space_def)
  then show "t @ ''.NS'' = [] \<or> (\<not> is_space (hd (t @ ''.NS'')) \<and> \<not> is_space (last (t @ ''.NS'')))"
    using tr by (cases t) auto
qed

lemma indian_indices_keys:
  "map_of indian_indices x = Some v \<Longrightarrow> \<not> endswith x ''.NS'' \<and> \<not> startswith x ''^''"
  by (auto simp: indian_indices_def endswith_def startswith_def suffix_to_prefix split: if_splits)

lemma indian_indices_values:
  "map_of indian_indices x = Some v \<Longrightarrow> yahoo_normalize_symbol v = v"
  by (auto simp: indian_indices_def yahoo_normalize_symbol_def upper_def upper_char_def strip_def
      is_space_def endswith_def startswith_def suffix_to_prefix split: if_splits)

lemma yahoo_normalize_symbol_idem:
  "yahoo_normalize_symbol (yahoo_normalize_symbol s) = yahoo_normalize_symbol s"
proof -
  define t where "t = upper (strip s)"
  have ut: "upper t = t" and st: "strip t = t" by (simp_all add: t_def canon_fix)
  show ?thesis
  proof (cases "map_of indian_indices t")
    case (Some idx)
    then have "yahoo_normalize_symbol s = idx"
      by (simp add: yahoo_normalize_symbol_def t_def [symmetric])
    then show ?thesis using indian_indices_values [OF Some] by simp
  next
    case None
    show ?thesis
    proof (cases "\<not> endswith t ''.NS'' \<and> \<not> startswith t ''^''")
      case True
      then have r: "yahoo_normalize_symbol s = t @ ''.NS''"
        using None by (simp add: yahoo_normalize_symbol_def t_def [symmetric])
      have c: "upper (strip (t @ ''.NS'')) = t @ ''.NS''"
        by (simp add: strip_append_NS [OF st] upper_append ut) (simp add: upper_def upper_char_def)
      have e: "endswith (t @ ''.NS'') ''.NS''" by (simp add: endswith_def suffix_def)
      then have "map_of indian_indices (t @ ''.NS'') = None"
        using indian_indices_keys [of "t @ ''.NS''"] by (cases "map_of indian_indices (t @ ''.NS'')") auto
      then have "yahoo_normalize_symbol (t @ ''.NS'') = t @ ''.NS''"
        using e by (simp add: yahoo_normalize_symbol_def c)
      then show ?thesis by (simp add: r)
    next
      case False
      then have r: "yahoo_normalize_symbol s = t"
        using None by (simp add: yahoo_normalize_symbol_def t_def [symmetric])
      have "yahoo_normalize_symbol t = t"
        using None False by (simp add: yahoo_normalize_symbol_def st ut)
      then show ?thesis by (simp add: r)
    qed
  qed
qed

lemma symbol_mappings_range:
  "map_of symbol_mappings x = Some v \<Longrightarrow> v = ''NIFTY'' \<or> v = ''SENSEX'' \<or> v = ''BANKNIFTY''"
  by (auto simp: symbol_mappings_def split: if_splits)

lemma canon_names_fixed:
  "normalizer_normalize_symbol ''NIFTY'' = ''NIFTY''"
  "normalizer_normalize_symbol ''SENSEX'' = ''SENSEX''"
  "normalizer_normalize_symbol ''BANKNIFTY'' = ''BANKNIFTY''"
  by (simp_all add: normalizer_normalize_symbol_def symbol_mappings_def upper_def upper_char_def
      strip_def is_space_def)

lemma canon_names_upper:
  "upper ''NIFTY'' = ''NIFTY''" "upper ''SENSEX'' = ''SENSEX''" "upper ''BANKNIFTY'' = ''BANKNIFTY''"
  by (simp_all add: upper_def upper_char_def)


lemma symbol_mappings_values:
  "map_of symbol_mappings x = Some v \<Longrightarrow> normalizer_normalize_symbol v = v"
  using symbol_mappings_range [of x v] canon_names_fixed by auto

lemma nse_normalize_symbol_upper: "upper (nse_normalize_symbol s) = nse_normalize_symbol s"
  by (simp add: nse_normalize_symbol_def Let_def drop_last_def upper_take length_upper canon_fix)

lemma nse_normalize_symbol_stable:
  assumes "strip t = t" and "upper t = t"
    and "\<not> endswith t ''.NS''" and "\<not> endswith t ''.NSE''"
  shows "nse_normalize_symbol t = t"
  using assms by (simp add: nse_normalize_symbol_def)

lemma normalizer_normalize_symbol_upper:
  "upper (normalizer_normalize_symbol s) = normalizer_normalize_symbol s"
proof (cases "s = []")
  case True
  then show ?thesis by (simp add: normalizer_normalize_symbol_def upper_def)
next
  case False
  show ?thesis
  proof (cases "map_of symbol_mappings (upper (strip s))")
    case None
    then show ?thesis
      using False
      by (simp add: normalizer_normalize_symbol_def Let_def drop_last_def upper_take
          length_upper canon_fix)
  next
    case (Some canon)
    then have "upper canon = canon"
      using symbol_mappings_range [OF Some] canon_names_upper by auto
    then show ?thesis using False Some by (simp add: normalizer_normalize_symbol_def)
  qed
qed

lemma normalizer_normalize_symbol_stable:
  assumes "strip t = t" and "upper t = t"
    and "\<not> endswith t ''.NS''" and "\<not> endswith t ''.NSE''"
    and "\<not> endswith t ''.BO''" and "\<not> endswith t ''.BSE''"
    and "map_of symbol_mappings t = None \<or> map_of symbol_mappings t = Some t"
  shows "normalizer_normalize_symbol t = t"
proof (cases "t = []")
  case True
  then show ?thesis by (simp add: normalizer_normalize_symbol_def)
next
  case False
  from assms(7) show ?thesis
  proof
    assume "map_of symbol_mappings t = None"
    then show ?thesis using False assms(1-6) by (simp add: normalizer_normalize_symbol_def)
  next
    assume "map_of symbol_mappings t = Some t"
    then show ?thesis using False assms(1,2) by (simp add: normalizer_normalize_symbol_def)
  qed
qed

lemma dropWhile_same_length:
  assumes "length (dropWhile P xs) = length xs"
  shows "dropWhile P xs = xs"
proof -
  have "length (takeWhile P xs) + length (dropWhile P xs) = length xs"
    by (metis length_append takeWhile_dropWhile_id)
  with assms have "takeWhile P xs = []" by simp
  then show ?thesis by (metis append_Nil takeWhile_dropWhile_id)
qed

lemma length_strip_le: "length (strip s) \<le> length s"
proof -
  have "length (strip s) \<le> length (dropWhile is_space s)"
    using length_dropWhile_le [of is_space "rev (dropWhile is_space s)"] by (simp add: strip_def)
  also have "\<dots> \<le> length s" by (rule length_dropWhile_le)
  finally show ?thesis .
qed

lemma strip_same_length:
  assumes "length (strip s) = length s"
  shows "strip s = s"
proof -
  have 1: "length (strip s) \<le> length (dropWhile is_space s)"
    using length_dropWhile_le [of is_space "rev (dropWhile is_space s)"] by (simp add: strip_def)
  have 2: "length (dropWhile is_space s) \<le> length s" by (rule length_dropWhile_le)
  from assms 1 2 have "length (dropWhile is_space s) = length s" by simp
  then have a: "dropWhile is_space s = s" by (rule dropWhile_same_length)
  then have "length (dropWhile is_space (rev s)) = length (rev s)"
    using assms by (simp add: strip_def)
  then have "dropWhile is_space (rev s) = rev s" by (rule dropWhile_same_length)
  then show ?thesis by (simp add: strip_def a)
qed

lemma endswith_length: "endswith t suf \<Longrightarrow> length suf \<le> length t"
  by (simp add: endswith_def suffix_length_le)

lemma drop_last_shorter: "0 < n \<Longrightarrow> n \<le> length t \<Longrightarrow> length (drop_last n t) < length t"
  by (simp add: drop_last_def)

lemma length_drop_last_le: "length (drop_last n t) \<le> length t"
  by (simp add: drop_last_def)

lemma length_nse_le: "length (nse_normalize_symbol x) \<le> length (strip x)"
  using length_drop_last_le [of 3 "upper (strip x)"] length_drop_last_le [of 4 "upper (strip x)"]
  by (simp add: nse_normalize_symbol_def Let_def length_upper)

lemma nse_normalize_symbol_fixed_only_if:
  assumes u: "upper t = t" and f: "nse_normalize_symbol t = t"
  shows "strip t = t \<and> \<not> endswith t ''.NS'' \<and> \<not> endswith t ''.NSE''"
proof -
  have "length t \<le> length (strip t)" using length_nse_le [of t] f by simp
  then have s: "strip t = t" using length_strip_le [of t] by (intro strip_same_length) simp
  have n1: "\<not> endswith t ''.NS''"
  proof
    assume e: "endswith t ''.NS''"
    then have "nse_normalize_symbol t = drop_last 3 t" by (simp add: nse_normalize_symbol_def s u)
    moreover have "length (drop_last 3 t) < length t"
      using endswith_length [OF e] by (intro drop_last_shorter) simp_all
    ultimately show False using f by simp
  qed
  have n2: "\<not> endswith t ''.NSE''"
  proof
    assume e: "endswith t ''.NSE''"
    then have "nse_normalize_symbol t = drop_last 4 t"
      using n1 by (simp add: nse_normalize_symbol_def s u)
    moreover have "length (drop_last 4 t) < length t"
      using endswith_length [OF e] by (intro drop_last_shorter) simp_all
    ultimately show False using f by simp
  qed
  from s n1 n2 show ?thesis by simp
qed


lemma canon_names_stable:
  "v = ''NIFTY'' \<or> v = ''SENSEX'' \<or> v = ''BANKNIFTY'' \<Longrightarrow>
     strip v = v \<and> \<not> endswith v ''.NS'' \<and> \<not> endswith v ''.NSE'' \<and>
     \<not> endswith v ''.BO'' \<and> \<not> endswith v ''.BSE'' \<and> map_of symbol_mappings v = Some v"
  by (auto simp: strip_def is_space_def endswith_def suffix_to_prefix symbol_mappings_def)

lemma normalizer_normalize_symbol_fixed_only_if:
  assumes u: "upper t = t" and f: "normalizer_normalize_symbol t = t"
  shows "strip t = t \<and> \<not> endswith t ''.NS'' \<and> \<not> endswith t ''.NSE'' \<and>
     \<not> endswith t ''.BO'' \<and> \<not> endswith t ''.BSE'' \<and>
     (map_of symbol_mappings t = None \<or> map_of symbol_mappings t = Some t)"
proof (cases "t = []")
  case True
  then show ?thesis by (simp add: strip_def endswith_def symbol_mappings_def)
next
  case False
  show ?thesis
  proof (cases "map_of symbol_mappings (upper (strip t))")
    case (Some c)
    then have "normalizer_normalize_symbol t = c"
      using False by (simp add: normalizer_normalize_symbol_def)
    then have "c = t" using f by simp
    then have "t = ''NIFTY'' \<or> t = ''SENSEX'' \<or> t = ''BANKNIFTY''"
      using symbol_mappings_range [OF Some] by simp
    then show ?thesis using canon_names_stable [of t] by blast
  next
    case None
    let ?u = "upper (strip t)"
    have nz: "normalizer_normalize_symbol t =
        (if endswith ?u ''.NS'' then drop_last 3 ?u
         else if endswith ?u ''.NSE'' then drop_last 4 ?u
         else if endswith ?u ''.BO'' then drop_last 3 ?u
         else if endswith ?u ''.BSE'' then drop_last 4 ?u
         else ?u)"
      using False None by (simp add: normalizer_normalize_symbol_def)
    have "length (normalizer_normalize_symbol t) \<le> length ?u"
      unfolding nz using length_drop_last_le [of 3 ?u] length_drop_last_le [of 4 ?u] by simp
    then have "length t \<le> length (strip t)" using f by (simp add: length_upper)
    then have s: "strip t = t" using length_strip_le [of t] by (intro strip_same_length) simp
    then have ut: "?u = t" using u by simp
    have nz': "(if endswith t ''.NS'' then drop_last 3 t
         else if endswith t ''.NSE'' then drop_last 4 t
         else if endswith t ''.BO'' then drop_last 3 t
         else if endswith t ''.BSE'' then drop_last 4 t
         else t) = t"
      using nz f by (simp only: ut)
    have short3: "endswith t suf \<Longrightarrow> length suf = 3 \<Longrightarrow> drop_last 3 t \<noteq> t" for suf
      using endswith_length [of t suf] drop_last_shorter [of 3 t] by auto
    have short4: "endswith t suf \<Longrightarrow> length suf = 4 \<Longrightarrow> drop_last 4 t \<noteq> t" for suf
      using endswith_length [of t suf] drop_last_shorter [of 4 t] by auto
    have n1: "\<not> endswith t ''.NS''"
      using nz' short3 [of "''.NS''"] by (auto split: if_splits)
    have n2: "\<not> endswith t ''.NSE''"
      using nz' n1 short4 [of "''.NSE''"] by (auto split: if_splits)
    have n3: "\<not> endswith t ''.BO''"
      using nz' n1 n2 short3 [of "''.BO''"] by (auto split: if_splits)
    have n4: "\<not> endswith t ''.BSE''"
      using nz' n1 n2 n3 short4 [of "''.BSE''"] by (auto split: if_splits)
    have "map_of symbol_mappings t = None" using None by (simp only: ut)
    with s n1 n2 n3 n4 show ?thesis by simp
  qed
qed

text \<open>
  Claim C7, amended. \<open>YahooFinanceClient.normalize_symbol\<close> is idempotent on every
  string. \<open>NSEClient.normalize_symbol\<close> is idempotent at exactly those symbols whose
  normalized form has no surrounding whitespace left and no further \<open>.NS\<close> or \<open>.NSE\<close>
  suffix; \<open>DataNormalizer._normalize_symbol\<close> is idempotent at exactly those symbols
  whose normalized form has no surrounding whitespace left, no further \<open>.NS\<close>, \<open>.NSE\<close>,
  \<open>.BO\<close> or \<open>.BSE\<close> suffix, and is either no key of the alias table or a key mapped
  to itself. Both remove one suffix per call, so any other symbol is changed again by a
  second call.
\<close>

theorem normalize_symbol_idempotent_on_stable:
  "yahoo_normalize_symbol (yahoo_normalize_symbol s) = yahoo_normalize_symbol s \<and>
   ((nse_normalize_symbol (nse_normalize_symbol s) = nse_normalize_symbol s) =
      (strip (nse_normalize_symbol s) = nse_normalize_symbol s \<and>
       \<not> endswith (nse_normalize_symbol s) ''.NS'' \<and>
       \<not> endswith (nse_normalize_symbol s) ''.NSE'')) \<and>
   ((normalizer_normalize_symbol (normalizer_normalize_symbol s) = normalizer_normalize_symbol s) =
      (strip (normalizer_normalize_symbol s) = normalizer_normalize_symbol s \<and>
       \<not> endswith (normalizer_normalize_symbol s) ''.NS'' \<and>
       \<not> endswith (normalizer_normalize_symbol s) ''.NSE'' \<and>
       \<not> endswith (normalizer_normalize_symbol s) ''.BO'' \<and>
       \<not> endswith (normalizer_normalize_symbol s) ''.BSE'' \<and>
       (map_of symbol_mappings (normalizer_normalize_symbol s) = None \<or>
        map_of symbol_mappings (normalizer_normalize_symbol s) =
          Some (normalizer_normalize_symbol s))))"
proof -
  have Y: "yahoo_normalize_symbol (yahoo_normalize_symbol s) = yahoo_normalize_symbol s"
    by (rule yahoo_normalize_symbol_idem)
  have N: "(nse_normalize_symbol (nse_normalize_symbol s) = nse_normalize_symbol s) =
      (strip (nse_normalize_symbol s) = nse_normalize_symbol s \<and>
       \<not> endswith (nse_normalize_symbol s) ''.NS'' \<and>
       \<not> endswith (nse_normalize_symbol s) ''.NSE'')"
  proof (rule iffI)
    assume "nse_normalize_symbol (nse_normalize_symbol s) = nse_normalize_symbol s"
    then show "strip (nse_normalize_symbol s) = nse_normalize_symbol s \<and>
       \<not> endswith (nse_normalize_symbol s) ''.NS'' \<and>
       \<not> endswith (nse_normalize_symbol s) ''.NSE''"
      by (rule nse_normalize_symbol_fixed_only_if [OF nse_normalize_symbol_upper])
  next
    assume "strip (nse_normalize_symbol s) = nse_normalize_symbol s \<and>
       \<not> endswith (nse_normalize_symbol s) ''.NS'' \<and>
       \<not> endswith (nse_normalize_symbol s) ''.NSE''"
    then show "nse_normalize_symbol (nse_normalize_symbol s) = nse_normalize_symbol s"
      using nse_normalize_symbol_stable [OF _ nse_normalize_symbol_upper [of s]] by blast
  qed
  have Z: "(normalizer_normalize_symbol (normalizer_normalize_symbol s) =
        normalizer_normalize_symbol s) =
      (strip (normalizer_normalize_symbol s) = normalizer_normalize_symbol s \<and>
       \<not> endswith (normalizer_normalize_symbol s) ''.NS'' \<and>
       \<not> endswith (normalizer_normalize_symbol s) ''.NSE'' \<and>
       \<not> endswith (normalizer_normalize_symbol s) ''.BO'' \<and>
       \<not> endswith (normalizer_normalize_symbol s) ''.BSE'' \<and>
       (map_of symbol_mappings (normalizer_normalize_symbol s) = None \<or>
        map_of symbol_mappings (normalizer_normalize_symbol s) =
          Some (normalizer_normalize_symbol s)))"
  proof (rule iffI)
    assume "normalizer_normalize_symbol (normalizer_normalize_symbol s) =
        normalizer_normalize_symbol s"
    then show "strip (normalizer_normalize_symbol s) = normalizer_normalize_symbol s \<and>
       \<not> endswith (normalizer_normalize_symbol s) ''.NS'' \<and>
       \<not> endswith (normalizer_normalize_symbol s) ''.NSE'' \<and>
       \<not> endswith (normalizer_normalize_symbol s) ''.BO'' \<and>
       \<not> endswith (normalizer_normalize_symbol s) ''.BSE'' \<and>
       (map_of symbol_mappings (normalizer_normalize_symbol s) = None \<or>
        map_of symbol_mappings (normalizer_normalize_symbol s) =
          Some (normalizer_normalize_symbol s))"
      by (rule normalizer_normalize_symbol_fixed_only_if [OF normalizer_normalize_symbol_upper])
  next
    assume "strip (normalizer_normalize_symbol s) = normalizer_normalize_symbol s \<and>
       \<not> endswith (normalizer_normalize_symbol s) ''.NS'' \<and>
       \<not> endswith (normalizer_normalize_symbol s) ''.NSE'' \<and>
       \<not> endswith (normalizer_normalize_symbol s) ''.BO'' \<and>
       \<not> endswith (normalizer_normalize_symbol s) ''.BSE'' \<and>
       (map_of symbol_mappings (normalizer_normalize_symbol s) = None \<or>
        map_of symbol_mappings (normalizer_normalize_symbol s) =
          Some (normalizer_normalize_symbol s))"
    then show "normalizer_normalize_symbol (normalizer_normalize_symbol s) =
        normalizer_normalize_symbol s"
      using normalizer_normalize_symbol_stable [OF _ normalizer_normalize_symbol_upper [of s]]
      by blast
  qed
  from Y N Z show ?thesis by (intro conjI)
qed

lemma nse_sample: "nse_normalize_symbol '' reliance.ns '' = ''RELIANCE''"
  by (simp add: nse_normalize_symbol_def upper_def upper_char_def strip_def is_space_def
      endswith_def suffix_to_prefix drop_last_def)

lemma normalizer_sample: "normalizer_normalize_symbol '' reliance.ns '' = ''RELIANCE''"
  by (simp add: normalizer_normalize_symbol_def symbol_mappings_def upper_def upper_char_def
      strip_def is_space_def endswith_def suffix_to_prefix drop_last_def)

lemma reliance_stable:
  "strip ''RELIANCE'' = ''RELIANCE''"
  "\<not> endswith ''RELIANCE'' ''.NS''" "\<not> endswith ''RELIANCE'' ''.NSE''"
  "\<not> endswith ''RELIANCE'' ''.BO''" "\<not> endswith ''RELIANCE'' ''.BSE''"
  "map_of symbol_mappings ''RELIANCE'' = None"
  by (simp_all add: strip_def is_space_def endswith_def suffix_to_prefix symbol_mappings_def)



theorem normalize_symbol_idempotent_on_stable_witness:
  "strip (nse_normalize_symbol '' reliance.ns '') = nse_normalize_symbol '' reliance.ns '' \<and>
   \<not> endswith (nse_normalize_symbol '' reliance.ns '') ''.NS'' \<and>
   \<not> endswith (nse_normalize_symbol '' reliance.ns '') ''.NSE'' \<and>
   \<not> endswith (normalizer_normalize_symbol '' reliance.ns '') ''.BO'' \<and>
   \<not> endswith (normalizer_normalize_symbol '' reliance.ns '') ''.BSE'' \<and>
   map_of symbol_mappings (normalizer_normalize_symbol '' reliance.ns '') = None \<and>
   yahoo_normalize_symbol (yahoo_normalize_symbol '' reliance.ns '') =
     yahoo_normalize_symbol '' reliance.ns '' \<and>
   nse_normalize_symbol (nse_normalize_symbol '' reliance.ns '') = ''RELIANCE'' \<and>
   normalizer_normalize_symbol (normalizer_normalize_symbol '' reliance.ns '') = ''RELIANCE''"
proof -
  note T = normalize_symbol_idempotent_on_stable [of "'' reliance.ns ''"]
  have y: "yahoo_normalize_symbol (yahoo_normalize_symbol '' reliance.ns '') =
     yahoo_normalize_symbol '' reliance.ns ''"
    by (rule T [THEN conjunct1])
  have "nse_normalize_symbol (nse_normalize_symbol '' reliance.ns '') =
      nse_normalize_symbol '' reliance.ns ''"
    by (rule T [THEN conjunct2, THEN conjunct1, THEN iffD2])
       (simp only: nse_sample reliance_stable not_False_eq_True simp_thms)
  then have n: "nse_normalize_symbol (nse_normalize_symbol '' reliance.ns '') = ''RELIANCE''"
    by (simp only: nse_sample)
  have "normalizer_normalize_symbol (normalizer_normalize_symbol '' reliance.ns '') =
      normalizer_normalize_symbol '' reliance.ns ''"
    by (rule T [THEN conjunct2, THEN conjunct2, THEN iffD2])
       (simp only: normalizer_sample reliance_stable not_False_eq_True simp_thms)
  then have z: "normalizer_normalize_symbol (normalizer_normalize_symbol '' reliance.ns '') =
      ''RELIANCE''"
    by (simp only: normalizer_sample)
  note n' = n [unfolded nse_sample] and z' = z [unfolded normalizer_sample]
  show ?thesis
    by (simp only: y n' z' nse_sample normalizer_sample reliance_stable not_False_eq_True
        simp_thms)
qed

text \<open>
  Claim C7 as stated fails. The normalizer maps \<open>NIFTY50.NS\<close> to \<open>NIFTY50\<close> (the alias
  lookup precedes the suffix removal) and \<open>NIFTY50\<close> to \<open>NIFTY\<close>; the exchange adapter
  maps \<open>RELIANCE.NS.NS\<close> to \<open>RELIANCE.NS\<close> and that to \<open>RELIANCE\<close>.
\<close>

theorem normalize_symbol_not_idempotent:
  "normalizer_normalize_symbol ''NIFTY50.NS'' = ''NIFTY50'' \<and>
   normalizer_normalize_symbol (normalizer_normalize_symbol ''NIFTY50.NS'') = ''NIFTY'' \<and>
   nse_normalize_symbol ''RELIANCE.NS.NS'' = ''RELIANCE.NS'' \<and>
   nse_normalize_symbol (nse_normalize_symbol ''RELIANCE.NS.NS'') = ''RELIANCE''"
  by (simp add: normalizer_normalize_symbol_def nse_normalize_symbol_def symbol_mappings_def
      upper_def upper_char_def strip_def is_space_def endswith_def suffix_to_prefix drop_last_def)

subsection \<open>Merging a primary with a fallback payload\<close>

lemma map_of_fill_key:
  "map_of (fill_key m kv) k =
     (if k = fst kv
      then (case map_of m k of
              None \<Rightarrow> Some (snd kv)
            | Some u \<Rightarrow> if u = JNull \<or> py_eq_zero u then Some (snd kv) else Some u)
      else map_of m k)"
  by (auto simp: fill_key_def update_conv' split: option.splits)

lemma map_of_foldl_fill_key:
  "distinct (map fst f) \<Longrightarrow>
   map_of (foldl fill_key m f) k =
     (case map_of f k of
        None \<Rightarrow> map_of m k
      | Some v \<Rightarrow>
          (case map_of m k of
             None \<Rightarrow> Some v
           | Some u \<Rightarrow> if u = JNull \<or> py_eq_zero u then Some v else Some u))"
proof (induction f arbitrary: m)
  case Nil
  then show ?case by simp
next
  case (Cons kv f)
  obtain a b where kv: "kv = (a, b)" by (cases kv)
  from Cons.prems have d: "distinct (map fst f)" and a: "a \<notin> fst ` set f"
    by (simp_all add: kv)
  have IH: "map_of (foldl fill_key (fill_key m kv) f) k =
     (case map_of f k of
        None \<Rightarrow> map_of (fill_key m kv) k
      | Some v \<Rightarrow>
          (case map_of (fill_key m kv) k of
             None \<Rightarrow> Some v
           | Some u \<Rightarrow> if u = JNull \<or> py_eq_zero u then Some v else Some u))"
    by (rule Cons.IH [OF d])
  show ?case
  proof (cases "k = a")
    case True
    then have "map_of f k = None" using a by (simp add: map_of_eq_None_iff)
    then show ?thesis using True IH by (simp add: kv map_of_fill_key split: option.splits)
  next
    case False
    then show ?thesis using IH by (simp add: kv map_of_fill_key split: option.splits)
  qed
qed

lemma merge_unusable_primary:
  "unusable primary \<Longrightarrow> merge_data_sources primary fallback = fallback"
  by (auto simp: unusable_def merge_data_sources_def split: option.splits)

lemma merge_unusable_fallback:
  "\<not> unusable primary \<Longrightarrow> unusable fallback \<Longrightarrow> merge_data_sources primary fallback = primary"
  by (auto simp: unusable_def merge_data_sources_def split: option.splits)

lemma merge_usable:
  assumes "\<not> unusable (Some p)" and "\<not> unusable (Some f)"
  shows "merge_data_sources (Some p) (Some f) =
     Some (AList.update ''merged'' (JBool True)
            (AList.update ''fallback_source'' (get_or f ''source'' (JStr ''unknown''))
              (AList.update ''primary_source'' (get_or p ''source'' (JStr ''unknown''))
                (foldl fill_key p f))))"
  using assms by (simp add: unusable_def merge_data_sources_def Let_def)

text \<open>
  Claim C1, amended. \<open>merge_data_sources\<close> returns the fallback argument unchanged when
  the primary is \<open>None\<close>, an empty dict or a dict with an \<open>error\<close> key; otherwise it
  returns the primary unchanged when the fallback is \<open>None\<close>, empty or has an \<open>error\<close>
  key. Otherwise the result is a dict that, on every key other than the three provenance
  keys, has the fallback's value where the fallback has the key and the primary's value
  is absent, \<open>None\<close> or equal to zero under Python's \<open>==\<close> (0, 0.0 or \<open>False\<close>), and the
  primary's value (or absence) in every other case; \<open>primary_source\<close>,
  \<open>fallback_source\<close> and \<open>merged = True\<close> are written last. The fallback is a dict, so
  each of its keys occurs once.
\<close>

theorem merge_data_sources_contract:
  "(unusable primary \<longrightarrow> merge_data_sources primary fallback = fallback) \<and>
   (\<not> unusable primary \<and> unusable fallback \<longrightarrow>
      merge_data_sources primary fallback = primary) \<and>
   (\<not> unusable (Some p) \<and> \<not> unusable (Some f) \<and> distinct (map fst f) \<longrightarrow>
      (\<exists>m. merge_data_sources (Some p) (Some f) = Some m \<and>
           map_of m ''primary_source'' = Some (get_or p ''source'' (JStr ''unknown'')) \<and>
           map_of m ''fallback_source'' = Some (get_or f ''source'' (JStr ''unknown'')) \<and>
           map_of m ''merged'' = Some (JBool True) \<and>
           (\<forall>k. k \<notin> {''primary_source'', ''fallback_source'', ''merged''} \<longrightarrow>
              map_of m k =
                (case map_of f k of
                   None \<Rightarrow> map_of p k
                 | Some v \<Rightarrow>
                     (case map_of p k of
                        None \<Rightarrow> Some v
                      | Some u \<Rightarrow> if u = JNull \<or> py_eq_zero u then Some v else Some u)))))"
proof (intro conjI impI)
  assume "unusable primary"
  then show "merge_data_sources primary fallback = fallback"
    by (rule merge_unusable_primary)
next
  assume "\<not> unusable primary \<and> unusable fallback"
  then show "merge_data_sources primary fallback = primary"
    by (simp add: merge_unusable_fallback)
next
  assume A: "\<not> unusable (Some p) \<and> \<not> unusable (Some f) \<and> distinct (map fst f)"
  define m where "m = AList.update ''merged'' (JBool True)
            (AList.update ''fallback_source'' (get_or f ''source'' (JStr ''unknown''))
              (AList.update ''primary_source'' (get_or p ''source'' (JStr ''unknown''))
                (foldl fill_key p f)))"
  have 1: "merge_data_sources (Some p) (Some f) = Some m"
    using A by (simp add: merge_usable m_def)
  have 2: "map_of m ''primary_source'' = Some (get_or p ''source'' (JStr ''unknown''))"
    by (simp add: m_def update_conv')
  have 3: "map_of m ''fallback_source'' = Some (get_or f ''source'' (JStr ''unknown''))"
    by (simp add: m_def update_conv')
  have 4: "map_of m ''merged'' = Some (JBool True)"
    by (simp add: m_def update_conv')
  have 5: "\<forall>k. k \<notin> {''primary_source'', ''fallback_source'', ''merged''} \<longrightarrow>
              map_of m k =
                (case map_of f k of
                   None \<Rightarrow> map_of p k
                 | Some v \<Rightarrow>
                     (case map_of p k of
                        None \<Rightarrow> Some v
                      | Some u \<Rightarrow> if u = JNull \<or> py_eq_zero u then Some v else Some u))"
  proof (intro allI impI)
    fix k :: string
    assume "k \<notin> {''primary_source'', ''fallback_source'', ''merged''}"
    then have "map_of m k = map_of (foldl fill_key p f) k"
      by (simp add: m_def update_conv')
    also have "\<dots> = (case map_of f k of
                   None \<Rightarrow> map_of p k
                 | Some v \<Rightarrow>
                     (case map_of p k of
                        None \<Rightarrow> Some v
                      | Some u \<Rightarrow> if u = JNull \<or> py_eq_zero u then Some v else Some u))"
      using A by (simp add: map_of_foldl_fill_key)
    finally show "map_of m k =
                (case map_of f k of
                   None \<Rightarrow> map_of p k
                 | Some v \<Rightarrow>
                     (case map_of p k of
                        None \<Rightarrow> Some v
                      | Some u \<Rightarrow> if u = JNull \<or> py_eq_zero u then Some v else Some u))" .
  qed
  from 1 2 3 4 5 show "\<exists>m. merge_data_sources (Some p) (Some f) = Some m \<and>
           map_of m ''primary_source'' = Some (get_or p ''source'' (JStr ''unknown'')) \<and>
           map_of m ''fallback_source'' = Some (get_or f ''source'' (JStr ''unknown'')) \<and>
           map_of m ''merged'' = Some (JBool True) \<and>
           (\<forall>k. k \<notin> {''primary_source'', ''fallback_source'', ''merged''} \<longrightarrow>
              map_of m k =
                (case map_of f k of
                   None \<Rightarrow> map_of p k
                 | Some v \<Rightarrow>
                     (case map_of p k of
                        None \<Rightarrow> Some v
                      | Some u \<Rightarrow> if u = JNull \<or> py_eq_zero u then Some v else Some u)))"
    by blast
qed

lemma example_usable:
  "\<not> unusable (Some example_primary)" "\<not> unusable (Some example_fallback)"
  "distinct (map fst example_fallback)" "unusable None"
  by (simp_all add: unusable_def has_error_def example_primary_def example_fallback_def)

lemma example_merge:
  "merge_data_sources (Some example_primary) (Some example_fallback) =
     Some [(''a'', JInt 5), (''b'', JInt 9), (''c'', JInt 9), (''d'', JInt 9),
           (''primary_source'', JStr ''unknown''), (''fallback_source'', JStr ''unknown''),
           (''merged'', JBool True)]"
  by (simp add: merge_data_sources_def has_error_def example_primary_def example_fallback_def
      fill_key_def get_or_def)

text \<open>
  The example of the specification: primary \<open>{a: 5, b: 0, c: None}\<close> and fallback
  \<open>{a: 9, b: 9, c: 9, d: 9}\<close> merge to \<open>{a: 5, b: 9, c: 9, d: 9}\<close> and the three
  provenance entries; an absent primary gives the fallback, an absent fallback the
  primary.
\<close>

theorem merge_data_sources_contract_witness:
  "unusable None \<and> \<not> unusable (Some example_primary) \<and> \<not> unusable (Some example_fallback) \<and>
   distinct (map fst example_fallback) \<and>
   merge_data_sources None (Some example_fallback) = Some example_fallback \<and>
   merge_data_sources (Some example_primary) None = Some example_primary \<and>
   merge_data_sources (Some example_primary) (Some example_fallback) =
     Some [(''a'', JInt 5), (''b'', JInt 9), (''c'', JInt 9), (''d'', JInt 9),
           (''primary_source'', JStr ''unknown''), (''fallback_source'', JStr ''unknown''),
           (''merged'', JBool True)]"
proof -
  note T1 = merge_data_sources_contract [of None "Some example_fallback" example_primary example_fallback]
  note T2 = merge_data_sources_contract [of "Some example_primary" None example_primary example_fallback]
  have a: "merge_data_sources None (Some example_fallback) = Some example_fallback"
    using T1 example_usable by blast
  have b: "merge_data_sources (Some example_primary) None = Some example_primary"
    using T2 example_usable by blast
  show ?thesis using a b example_usable example_merge by blast
qed

text \<open>
  Claim C1 as stated fails in two places. An empty primary dict is neither absent nor
  marked as an error, yet the fallback comes back as it is, without provenance entries;
  and a primary value \<open>False\<close>, which is neither absent, nor \<open>None\<close>, nor the number
  zero, is overwritten by the fallback's value because \<open>False == 0\<close> holds in Python.
\<close>

theorem merge_data_sources_empty_and_false:
  "merge_data_sources (Some []) (Some [(''price'', JInt 9)]) = Some [(''price'', JInt 9)] \<and>
   merge_data_sources
     (Some [(''symbol'', JStr ''TCS''), (''is_open'', JBool False)])
     (Some [(''symbol'', JStr ''TCS''), (''is_open'', JBool True)]) =
   Some [(''symbol'', JStr ''TCS''), (''is_open'', JBool True),
         (''primary_source'', JStr ''unknown''), (''fallback_source'', JStr ''unknown''),
         (''merged'', JBool True)]"
  by (simp add: merge_data_sources_def has_error_def fill_key_def get_or_def)

subsection \<open>Price normalization\<close>

lemma bit_length_le: "n < 2 ^ k \<Longrightarrow> bit_length n \<le> k"
proof (induction k arbitrary: n)
  case 0
  then show ?case by (simp add: bit_length.simps)
next
  case (Suc k)
  show ?case
  proof (cases "n = 0")
    case True
    then show ?thesis by (simp add: bit_length.simps)
  next
    case False
    from Suc.prems have "n div 2 < 2 ^ k" by simp
    then have "bit_length (n div 2) \<le> k" by (rule Suc.IH)
    then show ?thesis using False by (subst bit_length.simps) simp
  qed
qed

text \<open>Integers of at most 53 bits are converted exactly.\<close>

lemma float_of_int_exact: "\<bar>i\<bar> < 2 ^ 53 \<Longrightarrow> float_of_int i = Some (real_of_int i)"
proof -
  assume "\<bar>i\<bar> < 2 ^ 53"
  then have "nat \<bar>i\<bar> < 2 ^ 53" by simp
  then have "bit_length (nat \<bar>i\<bar>) \<le> 53" by (rule bit_length_le)
  then show ?thesis by (simp add: float_of_int_def Let_def)
qed

lemma float_of_int_zero: "float_of_int 0 = Some 0"
  using float_of_int_exact [of 0] by simp

lemma trunc_of_int: "trunc (real_of_int i) = i"
  by (simp add: trunc_def)

lemma safe_float_default: "safe_float float_of_str (JInt 0) = Some (Finite 0)"
  by (simp add: float_of_int_zero)

lemma safe_int_default: "safe_int float_of_str (JInt 0) = Some 0"
  by (simp add: float_of_int_zero trunc_def)

lemma not_numeric_safe_float:
  "not_numeric float_of_str v \<Longrightarrow> safe_float float_of_str v = Some (Finite 0)"
  by (cases v) simp_all

lemma not_numeric_safe_int:
  "not_numeric float_of_str v \<Longrightarrow> safe_int float_of_str v = Some 0"
  by (cases v) simp_all

lemma absent_or_not_numeric_float:
  "absent_or_not_numeric float_of_str raw k \<Longrightarrow>
     safe_float float_of_str (get_or raw k (JInt 0)) = Some (Finite 0) \<and>
     safe_float float_of_str (get_none raw k) = Some (Finite 0)"
  by (auto simp: absent_or_not_numeric_def get_or_def get_none_def float_of_int_zero
      not_numeric_safe_float split: option.splits)

lemma absent_or_not_numeric_int:
  "absent_or_not_numeric float_of_str raw k \<Longrightarrow>
     safe_int float_of_str (get_or raw k (JInt 0)) = Some 0"
  by (auto simp: absent_or_not_numeric_def get_or_def float_of_int_zero trunc_def
      not_numeric_safe_int split: option.splits)

text \<open>The coercions fail on an oversized integer, \<open>_safe_int\<close> also on an infinity.\<close>

lemma safe_float_none_iff:
  "(safe_float float_of_str v = None) = (\<exists>i. v = JInt i \<and> float_of_int i = None)"
  by (cases v) (auto split: option.splits)


lemma safe_int_none_iff:
  "(safe_int float_of_str v = None) =
     ((\<exists>i. v = JInt i \<and> float_of_int i = None) \<or>
      v = JNonFinite PosInf \<or> v = JNonFinite NegInf \<or>
      (\<exists>s. v = JStr s \<and>
           (float_of_str s = Some (NonFinite PosInf) \<or> float_of_str s = Some (NonFinite NegInf))))"
proof (cases v)
  case (JNonFinite n)
  then show ?thesis by (cases n) simp_all
next
  case (JStr s)
  show ?thesis
  proof (cases "float_of_str s")
    case None
    then show ?thesis using JStr by simp
  next
    case (Some x)
    show ?thesis
    proof (cases x)
      case (Finite r)
      then show ?thesis using JStr Some by simp
    next
      case (NonFinite n)
      then show ?thesis using JStr Some by (cases n) simp_all
    qed
  qed
qed (auto split: option.splits)

text \<open>
  What \<open>normalize_price_data\<close> returns when it returns a record: every numeric field is
  the coercion of the raw value.
\<close>

lemma normalize_price_data_Some:
  assumes "normalize_price_data float_of_str now_iso raw = Some r"
  shows "\<not> has_error raw"
    and "normalize_symbol_value (get_or raw ''symbol'' (JStr [])) = Some (np_symbol r)"
    and "safe_float float_of_str (get_or raw ''price'' (JInt 0)) = Some (np_price r)"
    and "safe_float float_of_str (get_or raw ''change'' (JInt 0)) = Some (np_change r)"
    and "safe_float float_of_str (get_or raw ''change_percent'' (JInt 0)) =
           Some (np_change_percent r)"
    and "safe_float float_of_str (get_or raw ''open'' (JInt 0)) = Some (np_open r)"
    and "safe_float float_of_str (get_or raw ''high'' (JInt 0)) = Some (np_high r)"
    and "safe_float float_of_str (get_or raw ''low'' (JInt 0)) = Some (np_low r)"
    and "safe_int float_of_str (get_or raw ''volume'' (JInt 0)) = Some (np_volume r)"
    and "safe_float float_of_str (get_none raw ''previous_close'') = np_previous_close r"
    and "safe_float float_of_str (get_none raw ''market_cap'') = np_market_cap r"
    and "safe_float float_of_str (get_none raw ''pe_ratio'') = np_pe_ratio r"
    and "np_previous_close r \<noteq> None" and "np_market_cap r \<noteq> None"
    and "np_pe_ratio r \<noteq> None"
proof -
  show ne: "\<not> has_error raw"
    using assms by (cases "has_error raw") (simp_all add: normalize_price_data_def)
  obtain symbol price change change_percent open_price high low volume previous_close
      market_cap pe_ratio
    where b:
      "normalize_symbol_value (get_or raw ''symbol'' (JStr [])) = Some symbol"
      "safe_float float_of_str (get_or raw ''price'' (JInt 0)) = Some price"
      "safe_float float_of_str (get_or raw ''change'' (JInt 0)) = Some change"
      "safe_float float_of_str (get_or raw ''change_percent'' (JInt 0)) = Some change_percent"
      "safe_float float_of_str (get_or raw ''open'' (JInt 0)) = Some open_price"
      "safe_float float_of_str (get_or raw ''high'' (JInt 0)) = Some high"
      "safe_float float_of_str (get_or raw ''low'' (JInt 0)) = Some low"
      "safe_int float_of_str (get_or raw ''volume'' (JInt 0)) = Some volume"
      "safe_float float_of_str (get_none raw ''previous_close'') = Some previous_close"
      "safe_float float_of_str (get_none raw ''market_cap'') = Some market_cap"
      "safe_float float_of_str (get_none raw ''pe_ratio'') = Some pe_ratio"
    and r: "r = \<lparr>np_symbol = symbol, np_price = price, np_change = change,
                np_change_percent = change_percent, np_open = open_price, np_high = high,
                np_low = low, np_volume = volume,
                np_timestamp = get_or raw ''timestamp'' (JStr now_iso),
                np_source = get_or raw ''source'' (JStr ''unknown''),
                np_market_state = get_or raw ''market_state'' (JStr ''unknown''),
                np_previous_close = Some previous_close, np_market_cap = Some market_cap,
                np_pe_ratio = Some pe_ratio,
                np_additional_data =
                  (if filter (\<lambda>kv. fst kv \<notin> set known_price_keys) raw \<noteq> []
                   then Some (filter (\<lambda>kv. fst kv \<notin> set known_price_keys) raw)
                   else None)\<rparr>"
    using assms ne unfolding normalize_price_data_def Let_def
    by (simp add: bind_eq_Some_conv) blast
  show "normalize_symbol_value (get_or raw ''symbol'' (JStr [])) = Some (np_symbol r)"
    and "safe_float float_of_str (get_or raw ''price'' (JInt 0)) = Some (np_price r)"
    and "safe_float float_of_str (get_or raw ''change'' (JInt 0)) = Some (np_change r)"
    and "safe_float float_of_str (get_or raw ''change_percent'' (JInt 0)) =
           Some (np_change_percent r)"
    and "safe_float float_of_str (get_or raw ''open'' (JInt 0)) = Some (np_open r)"
    and "safe_float float_of_str (get_or raw ''high'' (JInt 0)) = Some (np_high r)"
    and "safe_float float_of_str (get_or raw ''low'' (JInt 0)) = Some (np_low r)"
    and "safe_int float_of_str (get_or raw ''volume'' (JInt 0)) = Some (np_volume r)"
    and "safe_float float_of_str (get_none raw ''previous_close'') = np_previous_close r"
    and "safe_float float_of_str (get_none raw ''market_cap'') = np_market_cap r"
    and "safe_float float_of_str (get_none raw ''pe_ratio'') = np_pe_ratio r"
    and "np_previous_close r \<noteq> None" and "np_market_cap r \<noteq> None"
    and "np_pe_ratio r \<noteq> None"
    by (simp_all add: b r)
qed


lemma normalize_price_data_None_iff:
  "(normalize_price_data float_of_str now_iso raw = None) =
     (has_error raw \<or>
      normalize_symbol_value (get_or raw ''symbol'' (JStr [])) = None \<or>
      safe_float float_of_str (get_or raw ''price'' (JInt 0)) = None \<or>
      safe_float float_of_str (get_or raw ''change'' (JInt 0)) = None \<or>
      safe_float float_of_str (get_or raw ''change_percent'' (JInt 0)) = None \<or>
      safe_float float_of_str (get_or raw ''open'' (JInt 0)) = None \<or>
      safe_float float_of_str (get_or raw ''high'' (JInt 0)) = None \<or>
      safe_float float_of_str (get_or raw ''low'' (JInt 0)) = None \<or>
      safe_int float_of_str (get_or raw ''volume'' (JInt 0)) = None \<or>
      safe_float float_of_str (get_none raw ''previous_close'') = None \<or>
      safe_float float_of_str (get_none raw ''market_cap'') = None \<or>
      safe_float float_of_str (get_none raw ''pe_ratio'') = None)"
  unfolding normalize_price_data_def Let_def
  by (auto simp: bind_eq_None_conv)

lemma numeric_price_keys_all:
  assumes "list_all (absent_or_not_numeric float_of_str raw) numeric_price_keys"
  shows "absent_or_not_numeric float_of_str raw ''price''"
    "absent_or_not_numeric float_of_str raw ''change''"
    "absent_or_not_numeric float_of_str raw ''change_percent''"
    "absent_or_not_numeric float_of_str raw ''open''"
    "absent_or_not_numeric float_of_str raw ''high''"
    "absent_or_not_numeric float_of_str raw ''low''"
    "absent_or_not_numeric float_of_str raw ''volume''"
    "absent_or_not_numeric float_of_str raw ''previous_close''"
    "absent_or_not_numeric float_of_str raw ''market_cap''"
    "absent_or_not_numeric float_of_str raw ''pe_ratio''"
  using assms by (simp_all add: numeric_price_keys_def)

lemma normalize_price_data_returns:
  assumes "\<not> has_error raw"
    and "normalize_symbol_value (get_or raw ''symbol'' (JStr [])) \<noteq> None"
    and "list_all (absent_or_not_numeric float_of_str raw) numeric_price_keys"
  shows "normalize_price_data float_of_str now_iso raw \<noteq> None"
  using assms(1,2) numeric_price_keys_all [OF assms(3)]
  by (simp add: normalize_price_data_None_iff absent_or_not_numeric_float
      absent_or_not_numeric_int)


lemma bit_length_upper: "n < 2 ^ bit_length n"
proof (induction n rule: bit_length.induct)
  case (1 n)
  show ?case
  proof (cases "n = 0")
    case True
    then show ?thesis by simp
  next
    case False
    then have "n div 2 < 2 ^ bit_length (n div 2)" by (rule "1.IH")
    then have "n < 2 * 2 ^ bit_length (n div 2)" by linarith
    then show ?thesis using False by (subst bit_length.simps) simp
  qed
qed

lemma bit_length_lower: "n \<noteq> 0 \<Longrightarrow> 2 ^ (bit_length n - 1) \<le> n"
proof (induction n rule: bit_length.induct)
  case (1 n)
  then have n: "n \<noteq> 0" by simp
  have bl: "bit_length n = Suc (bit_length (n div 2))"
    using n by (subst bit_length.simps) simp
  show ?case
  proof (cases "n div 2 = 0")
    case True
    then have "bit_length (n div 2) = 0" by (simp add: bit_length.simps)
    then show ?thesis using n by (simp add: bl)
  next
    case False
    then have IH: "2 ^ (bit_length (n div 2) - 1) \<le> n div 2" using n by (intro "1.IH")
    have "bit_length (n div 2) \<noteq> 0"
      using False by (subst bit_length.simps) simp
    then obtain j where j: "bit_length (n div 2) = Suc j" by (cases "bit_length (n div 2)") auto
    have "(2::nat) ^ (bit_length n - 1) = 2 * 2 ^ j" by (simp add: bl j)
    also have "\<dots> \<le> 2 * (n div 2)" using IH by (simp add: j)
    also have "\<dots> \<le> n" by simp
    finally show ?thesis .
  qed
qed

lemma round_half_even_ge: "a div 2 ^ e \<le> round_half_even a e"
  by (simp add: round_half_even_def Let_def)

text \<open>An integer of magnitude \<open>2 ^ 1024\<close> or more has no float.\<close>

lemma float_of_int_overflow:
  assumes "2 ^ 1024 \<le> \<bar>i\<bar>"
  shows "float_of_int i = None"
proof -
  define a where "a = nat \<bar>i\<bar>"
  define n where "n = bit_length a"
  have a: "2 ^ 1024 \<le> a"
  proof -
    have "(2::int) ^ 1024 \<le> int a" using assms by (simp add: a_def)
    then have "int (2 ^ 1024) \<le> int a" by simp
    then show ?thesis by (simp only: of_nat_le_iff)
  qed
  then have a0: "a \<noteq> 0" by auto
  have lt: "(2::nat) ^ 1024 < 2 ^ n" using a bit_length_upper [of a] by (simp add: n_def)
  have n: "1024 < n" by (rule power_less_imp_less_exp [OF _ lt]) simp
  define e where "e = n - 53"
  have ne: "n - 1 = 52 + e" using n by (simp add: e_def)
  have pw: "(2::nat) ^ (n - 1) = 2 ^ 52 * 2 ^ e" by (simp only: ne power_add)
  have low: "(2::nat) ^ (n - 1) \<le> a" using bit_length_lower [OF a0] by (simp only: n_def)
  have "(2::nat) ^ 52 * 2 ^ e \<le> a" using low by (simp only: pw)
  then have "(2::nat) ^ 52 \<le> a div 2 ^ e"
    by (simp only: less_eq_div_iff_mult_less_eq zero_less_power zero_less_numeral)
  then have q: "(2::nat) ^ 52 \<le> round_half_even a e"
    using round_half_even_ge [of a e] by (rule order_trans)
  have "(2::nat) ^ 1024 \<le> 2 ^ (n - 1)" using n by (intro power_increasing) simp_all
  also have "\<dots> = 2 ^ 52 * 2 ^ e" by (rule pw)
  also have "\<dots> \<le> round_half_even a e * 2 ^ e" using q by (rule mult_le_mono1)
  finally have m: "(2::nat) ^ 1024 \<le> round_half_even a e * 2 ^ e" .
  have "\<not> n \<le> 53" using n by simp
  then show ?thesis
    using m unfolding float_of_int_def Let_def a_def [symmetric] n_def [symmetric]
      e_def [symmetric]
    by simp
qed


lemma normalize_price_data_fields:
  assumes "normalize_price_data float_of_str now_iso raw = Some r"
  shows "np_previous_close r \<noteq> None \<and> np_market_cap r \<noteq> None \<and> np_pe_ratio r \<noteq> None \<and>
     (absent_or_not_numeric float_of_str raw ''previous_close'' \<longrightarrow>
        np_previous_close r = Some (Finite 0)) \<and>
     (absent_or_not_numeric float_of_str raw ''market_cap'' \<longrightarrow>
        np_market_cap r = Some (Finite 0)) \<and>
     (absent_or_not_numeric float_of_str raw ''pe_ratio'' \<longrightarrow>
        np_pe_ratio r = Some (Finite 0)) \<and>
     (absent_or_not_numeric float_of_str raw ''price'' \<longrightarrow> np_price r = Finite 0) \<and>
     (absent_or_not_numeric float_of_str raw ''change'' \<longrightarrow> np_change r = Finite 0) \<and>
     (absent_or_not_numeric float_of_str raw ''change_percent'' \<longrightarrow>
        np_change_percent r = Finite 0) \<and>
     (absent_or_not_numeric float_of_str raw ''open'' \<longrightarrow> np_open r = Finite 0) \<and>
     (absent_or_not_numeric float_of_str raw ''high'' \<longrightarrow> np_high r = Finite 0) \<and>
     (absent_or_not_numeric float_of_str raw ''low'' \<longrightarrow> np_low r = Finite 0) \<and>
     (absent_or_not_numeric float_of_str raw ''volume'' \<longrightarrow> np_volume r = 0)"
proof -
  note S = normalize_price_data_Some [OF assms]
  have o: "np_previous_close r \<noteq> None" "np_market_cap r \<noteq> None" "np_pe_ratio r \<noteq> None"
    by (rule S)+
  have f: "absent_or_not_numeric float_of_str raw k \<Longrightarrow>
      safe_float float_of_str (get_or raw k (JInt 0)) = Some x \<Longrightarrow> x = Finite 0" for k x
    using absent_or_not_numeric_float [of float_of_str raw k] by simp
  have g: "absent_or_not_numeric float_of_str raw k \<Longrightarrow>
      safe_float float_of_str (get_none raw k) = y \<Longrightarrow> y = Some (Finite 0)" for k y
    using absent_or_not_numeric_float [of float_of_str raw k] by simp
  have v: "absent_or_not_numeric float_of_str raw k \<Longrightarrow>
      safe_int float_of_str (get_or raw k (JInt 0)) = Some z \<Longrightarrow> z = 0" for k z
    using absent_or_not_numeric_int [of float_of_str raw k] by simp
  show ?thesis
    using o f [OF _ S(3)] f [OF _ S(4)] f [OF _ S(5)] f [OF _ S(6)] f [OF _ S(7)] f [OF _ S(8)]
      v [OF _ S(9)] g [OF _ S(10)] g [OF _ S(11)] g [OF _ S(12)]
    by blast
qed

text \<open>
  Claim C5, amended. \<open>normalize_price_data\<close> returns \<open>None\<close> exactly when the payload
  has an error marker, the symbol is a truthy value that is no string, or a coercion
  raises \<open>OverflowError\<close> (an integer too large for a float, an infinite volume). When it
  returns a record, the optional fields \<open>previous_close\<close>, \<open>market_cap\<close> and \<open>pe_ratio\<close>
  are never \<open>None\<close>: like the required numeric fields they are coerced to 0 when the
  raw payload lacks the key or holds \<open>None\<close> or another non-numeric value under it.
  A payload without error marker, with a usable symbol and with every numeric field
  absent or non-numeric does give a record.
\<close>

theorem normalize_price_data_coercion:
  "(normalize_price_data float_of_str now_iso raw = None) =
     (has_error raw \<or>
      normalize_symbol_value (get_or raw ''symbol'' (JStr [])) = None \<or>
      safe_float float_of_str (get_or raw ''price'' (JInt 0)) = None \<or>
      safe_float float_of_str (get_or raw ''change'' (JInt 0)) = None \<or>
      safe_float float_of_str (get_or raw ''change_percent'' (JInt 0)) = None \<or>
      safe_float float_of_str (get_or raw ''open'' (JInt 0)) = None \<or>
      safe_float float_of_str (get_or raw ''high'' (JInt 0)) = None \<or>
      safe_float float_of_str (get_or raw ''low'' (JInt 0)) = None \<or>
      safe_int float_of_str (get_or raw ''volume'' (JInt 0)) = None \<or>
      safe_float float_of_str (get_none raw ''previous_close'') = None \<or>
      safe_float float_of_str (get_none raw ''market_cap'') = None \<or>
      safe_float float_of_str (get_none raw ''pe_ratio'') = None) \<and>
   (safe_float float_of_str v = None) = (\<exists>i. v = JInt i \<and> float_of_int i = None) \<and>
   (2 ^ 1024 \<le> \<bar>i\<bar> \<longrightarrow> float_of_int i = None) \<and>
   (\<bar>i\<bar> < 2 ^ 53 \<longrightarrow> float_of_int i = Some (real_of_int i)) \<and>
   (normalize_price_data float_of_str now_iso raw = Some r \<longrightarrow>
     np_previous_close r \<noteq> None \<and> np_market_cap r \<noteq> None \<and> np_pe_ratio r \<noteq> None \<and>
     (absent_or_not_numeric float_of_str raw ''previous_close'' \<longrightarrow>
        np_previous_close r = Some (Finite 0)) \<and>
     (absent_or_not_numeric float_of_str raw ''market_cap'' \<longrightarrow>
        np_market_cap r = Some (Finite 0)) \<and>
     (absent_or_not_numeric float_of_str raw ''pe_ratio'' \<longrightarrow>
        np_pe_ratio r = Some (Finite 0)) \<and>
     (absent_or_not_numeric float_of_str raw ''price'' \<longrightarrow> np_price r = Finite 0) \<and>
     (absent_or_not_numeric float_of_str raw ''change'' \<longrightarrow> np_change r = Finite 0) \<and>
     (absent_or_not_numeric float_of_str raw ''change_percent'' \<longrightarrow>
        np_change_percent r = Finite 0) \<and>
     (absent_or_not_numeric float_of_str raw ''open'' \<longrightarrow> np_open r = Finite 0) \<and>
     (absent_or_not_numeric float_of_str raw ''high'' \<longrightarrow> np_high r = Finite 0) \<and>
     (absent_or_not_numeric float_of_str raw ''low'' \<longrightarrow> np_low r = Finite 0) \<and>
     (absent_or_not_numeric float_of_str raw ''volume'' \<longrightarrow> np_volume r = 0)) \<and>
   (\<not> has_error raw \<and>
    normalize_symbol_value (get_or raw ''symbol'' (JStr [])) \<noteq> None \<and>
    list_all (absent_or_not_numeric float_of_str raw) numeric_price_keys \<longrightarrow>
      normalize_price_data float_of_str now_iso raw \<noteq> None)"
proof -
  note A = normalize_price_data_None_iff [of float_of_str now_iso raw]
  note B = safe_float_none_iff [of float_of_str v]
  have C: "2 ^ 1024 \<le> \<bar>i\<bar> \<longrightarrow> float_of_int i = None"
    using float_of_int_overflow by blast
  have D: "\<bar>i\<bar> < 2 ^ 53 \<longrightarrow> float_of_int i = Some (real_of_int i)"
    using float_of_int_exact by blast
  have E: "normalize_price_data float_of_str now_iso raw = Some r \<longrightarrow>
     np_previous_close r \<noteq> None \<and> np_market_cap r \<noteq> None \<and> np_pe_ratio r \<noteq> None \<and>
     (absent_or_not_numeric float_of_str raw ''previous_close'' \<longrightarrow>
        np_previous_close r = Some (Finite 0)) \<and>
     (absent_or_not_numeric float_of_str raw ''market_cap'' \<longrightarrow>
        np_market_cap r = Some (Finite 0)) \<and>
     (absent_or_not_numeric float_of_str raw ''pe_ratio'' \<longrightarrow>
        np_pe_ratio r = Some (Finite 0)) \<and>
     (absent_or_not_numeric float_of_str raw ''price'' \<longrightarrow> np_price r = Finite 0) \<and>
     (absent_or_not_numeric float_of_str raw ''change'' \<longrightarrow> np_change r = Finite 0) \<and>
     (absent_or_not_numeric float_of_str raw ''change_percent'' \<longrightarrow>
        np_change_percent r = Finite 0) \<and>
     (absent_or_not_numeric float_of_str raw ''open'' \<longrightarrow> np_open r = Finite 0) \<and>
     (absent_or_not_numeric float_of_str raw ''high'' \<longrightarrow> np_high r = Finite 0) \<and>
     (absent_or_not_numeric float_of_str raw ''low'' \<longrightarrow> np_low r = Finite 0) \<and>
     (absent_or_not_numeric float_of_str raw ''volume'' \<longrightarrow> np_volume r = 0)"
    by (rule impI) (rule normalize_price_data_fields)
  have F: "\<not> has_error raw \<and>
    normalize_symbol_value (get_or raw ''symbol'' (JStr [])) \<noteq> None \<and>
    list_all (absent_or_not_numeric float_of_str raw) numeric_price_keys \<longrightarrow>
      normalize_price_data float_of_str now_iso raw \<noteq> None"
    using normalize_price_data_returns [of raw float_of_str now_iso] by blast
  from A B C D E F show ?thesis by (intro conjI)
qed


lemma tcs_symbol: "normalize_symbol_value (JStr ''TCS'') \<noteq> None"
  by (simp add: normalize_symbol_value_def)

lemma unreadable_quote_facts:
  "\<not> has_error unreadable_quote"
  "get_or unreadable_quote ''symbol'' (JStr []) = JStr ''TCS''"
  "list_all (absent_or_not_numeric (\<lambda>s. None) unreadable_quote) numeric_price_keys"
  by (simp_all add: unreadable_quote_def has_error_def get_or_def numeric_price_keys_def
      absent_or_not_numeric_def)

lemma oversized_price:
  "safe_float float_of_str (get_or oversized_quote ''price'' (JInt 0)) = None"
proof -
  have ov: "float_of_int (2 ^ 1024) = None" by (rule float_of_int_overflow) simp
  have g: "get_or oversized_quote ''price'' (JInt 0) = JInt (2 ^ 1024)"
    unfolding oversized_quote_def get_or_def by simp
  show ?thesis unfolding g by (simp only: safe_float.simps ov option.map)
qed

text \<open>
  A quote whose price and P/E ratio are the text \<open>n/a\<close>, whose volume is a list and which
  lacks the other numeric fields gives a record with 0 in all of them; a quote whose
  price is the integer \<open>2 ^ 1024\<close> gives \<open>None\<close>.
\<close>

theorem normalize_price_data_coercion_witness:
  "\<not> has_error unreadable_quote \<and>
   normalize_symbol_value (get_or unreadable_quote ''symbol'' (JStr [])) \<noteq> None \<and>
   list_all (absent_or_not_numeric (\<lambda>s. None) unreadable_quote) numeric_price_keys \<and>
   map_option np_price
     (normalize_price_data (\<lambda>s. None) ''2026-11-04T10:00:00'' unreadable_quote) =
     Some (Finite 0) \<and>
   map_option np_volume
     (normalize_price_data (\<lambda>s. None) ''2026-11-04T10:00:00'' unreadable_quote) = Some 0 \<and>
   map_option np_previous_close
     (normalize_price_data (\<lambda>s. None) ''2026-11-04T10:00:00'' unreadable_quote) =
     Some (Some (Finite 0)) \<and>
   map_option np_market_cap
     (normalize_price_data (\<lambda>s. None) ''2026-11-04T10:00:00'' unreadable_quote) =
     Some (Some (Finite 0)) \<and>
   map_option np_pe_ratio
     (normalize_price_data (\<lambda>s. None) ''2026-11-04T10:00:00'' unreadable_quote) =
     Some (Some (Finite 0)) \<and>
   2 ^ 1024 \<le> \<bar>2 ^ 1024 :: int\<bar> \<and> float_of_int (2 ^ 1024) = None \<and>
   \<bar>1200 :: int\<bar> < 2 ^ 53 \<and> float_of_int 1200 = Some 1200 \<and>
   normalize_price_data (\<lambda>s. None) ''2026-11-04T10:00:00'' oversized_quote = None"
proof -
  let ?n = "normalize_price_data (\<lambda>s. None) ''2026-11-04T10:00:00'' unreadable_quote"
  note T = normalize_price_data_coercion
  have sym: "normalize_symbol_value (get_or unreadable_quote ''symbol'' (JStr [])) \<noteq> None"
    by (simp only: unreadable_quote_facts tcs_symbol not_False_eq_True)
  have "?n \<noteq> None"
    by (rule T [of "\<lambda>s. None" "''2026-11-04T10:00:00''" unreadable_quote JNull 0 undefined,
                THEN conjunct2, THEN conjunct2, THEN conjunct2, THEN conjunct2, THEN conjunct2,
                THEN mp])
       (intro conjI unreadable_quote_facts(1,3) sym)
  then obtain r where r: "?n = Some r" by blast
  note K = numeric_price_keys_all [OF unreadable_quote_facts(3)]
  note E = T [of "\<lambda>s. None" "''2026-11-04T10:00:00''" unreadable_quote JNull 0 r,
              THEN conjunct2, THEN conjunct2, THEN conjunct2, THEN conjunct2, THEN conjunct1,
              THEN mp, OF r]
  have fields: "np_price r = Finite 0 \<and> np_volume r = 0 \<and>
      np_previous_close r = Some (Finite 0) \<and> np_market_cap r = Some (Finite 0) \<and>
      np_pe_ratio r = Some (Finite 0)"
    using E K by blast
  have big: "(2::int) ^ 1024 \<le> \<bar>2 ^ 1024\<bar>" by simp
  have ov: "float_of_int (2 ^ 1024) = None"
    by (rule T [of "\<lambda>s. None" "''2026-11-04T10:00:00''" unreadable_quote JNull "2 ^ 1024" r,
                THEN conjunct2, THEN conjunct2, THEN conjunct1, THEN mp, OF big])
  have small: "\<bar>1200 :: int\<bar> < 2 ^ 53" by simp
  have ex: "float_of_int 1200 = Some (real_of_int 1200)"
    by (rule T [of "\<lambda>s. None" "''2026-11-04T10:00:00''" unreadable_quote JNull 1200 r,
                THEN conjunct2, THEN conjunct2, THEN conjunct2, THEN conjunct1, THEN mp,
                OF small])
  have none: "normalize_price_data (\<lambda>s. None) ''2026-11-04T10:00:00'' oversized_quote = None"
    by (rule T [of "\<lambda>s. None" "''2026-11-04T10:00:00''" oversized_quote JNull 0 r,
                THEN conjunct1, THEN iffD2])
       (rule disjI2, rule disjI2, rule disjI1, rule oversized_price)
  have ex': "float_of_int 1200 = Some 1200" using ex by simp
  have m: "map_option np_price ?n = Some (Finite 0)" "map_option np_volume ?n = Some 0"
    "map_option np_previous_close ?n = Some (Some (Finite 0))"
    "map_option np_market_cap ?n = Some (Some (Finite 0))"
    "map_option np_pe_ratio ?n = Some (Some (Finite 0))"
    using fields by (simp_all only: r option.map)
  from unreadable_quote_facts(1) sym unreadable_quote_facts(3) m big ov small ex' none
  show ?thesis by (intro conjI)
qed

lemma sparse_quote_facts:
  "\<not> has_error sparse_quote"
  "get_or sparse_quote ''symbol'' (JStr []) = JStr ''TCS''"
  "get_or sparse_quote ''price'' (JInt 0) = JFloat 3500.5"
  "get_or sparse_quote ''volume'' (JInt 0) = JInt 1200"
  "get_or sparse_quote ''change'' (JInt 0) = JInt 0"
  "get_or sparse_quote ''change_percent'' (JInt 0) = JInt 0"
  "get_or sparse_quote ''open'' (JInt 0) = JInt 0"
  "get_or sparse_quote ''high'' (JInt 0) = JInt 0"
  "get_or sparse_quote ''low'' (JInt 0) = JInt 0"
  "get_none sparse_quote ''previous_close'' = JNull"
  "get_none sparse_quote ''market_cap'' = JNull"
  "get_none sparse_quote ''pe_ratio'' = JNull"
  "map_of sparse_quote ''previous_close'' = None"
  "map_of sparse_quote ''market_cap'' = Some JNull"
  "map_of sparse_quote ''pe_ratio'' = None"
  by (simp_all add: sparse_quote_def has_error_def get_or_def get_none_def)

text \<open>
  Claim C5 as stated fails. \<open>sparse_quote\<close> carries no error marker, holds \<open>None\<close> under
  \<open>market_cap\<close> and lacks \<open>previous_close\<close> and \<open>pe_ratio\<close>; the record made from it
  has the number 0 in all three fields, none of them is kept as \<open>None\<close>.
\<close>

theorem normalize_price_data_optional_zero:
  "\<not> has_error sparse_quote \<and>
   map_of sparse_quote ''previous_close'' = None \<and>
   map_of sparse_quote ''market_cap'' = Some JNull \<and>
   map_of sparse_quote ''pe_ratio'' = None \<and>
   map_option np_previous_close
     (normalize_price_data (\<lambda>s. None) ''2026-11-04T10:00:00'' sparse_quote) =
     Some (Some (Finite 0)) \<and>
   map_option np_market_cap
     (normalize_price_data (\<lambda>s. None) ''2026-11-04T10:00:00'' sparse_quote) =
     Some (Some (Finite 0)) \<and>
   map_option np_pe_ratio
     (normalize_price_data (\<lambda>s. None) ''2026-11-04T10:00:00'' sparse_quote) =
     Some (Some (Finite 0))"
proof -
  let ?n = "normalize_price_data (\<lambda>s. None) ''2026-11-04T10:00:00'' sparse_quote"
  have v: "safe_int (\<lambda>s. None) (JInt 1200) \<noteq> None"
    using float_of_int_exact [of 1200] by simp
  have z: "safe_float (\<lambda>s. None) (JInt 0) \<noteq> None"
    by (simp add: float_of_int_zero)
  have f: "safe_float (\<lambda>s. None) (JFloat 3500.5) \<noteq> None"
    "safe_float (\<lambda>s. None) JNull \<noteq> None"
    by simp_all
  have "?n \<noteq> None"
    by (simp only: normalize_price_data_None_iff sparse_quote_facts tcs_symbol v z f
        simp_thms not_False_eq_True)
  then obtain r where r: "?n = Some r" by blast
  note S = normalize_price_data_Some [OF r]
  have "np_previous_close r = Some (Finite 0)" "np_market_cap r = Some (Finite 0)"
    "np_pe_ratio r = Some (Finite 0)"
    using S(10,11,12) by (simp_all add: sparse_quote_facts)
  then show ?thesis by (simp add: r sparse_quote_facts)
qed

subsection \<open>Cache validity, lazy eviction and promotion\<close>

lemma ttl_of_unlisted: "cache_type \<notin> fst ` set ttl_settings \<Longrightarrow> ttl_of cache_type = 600"
proof -
  assume "cache_type \<notin> fst ` set ttl_settings"
  then have "map_of ttl_settings cache_type = None" by (simp add: map_of_eq_None_iff)
  then show ?thesis by (simp add: ttl_of_def) (simp add: ttl_settings_def)
qed

lemma ttl_of_listed:
  "ttl_of ''real_time'' = 60" "ttl_of ''indices'' = 30" "ttl_of ''historical_1d'' = 3600"
  "ttl_of ''historical_intraday'' = 300" "ttl_of ''company_info'' = 86400"
  "ttl_of ''gainers_losers'' = 300" "ttl_of ''fii_dii'' = 3600" "ttl_of ''default'' = 600"
  by (simp_all add: ttl_of_def ttl_settings_def)

lemma ttl_of_positive: "0 < ttl_of cache_type"
proof (cases "map_of ttl_settings cache_type")
  case None
  then show ?thesis by (simp add: ttl_of_def) (simp add: ttl_settings_def)
next
  case (Some t)
  then have "t \<in> snd ` set ttl_settings" by (metis map_of_SomeD image_eqI snd_conv)
  then have "0 < t" by (auto simp: ttl_settings_def)
  then show ?thesis using Some by (simp add: ttl_of_def)
qed

lemma is_cache_valid_iff:
  "is_cache_valid e cache_type now =
     (\<exists>t. ce_cached_at e = Some t \<and> now < t + ttl_of cache_type * 1000000)"
  by (cases "ce_cached_at e") (simp_all add: is_cache_valid_def)

lemma read_file_expired:
  assumes "disk st k = Some (Stored e')" and "\<not> is_cache_valid e' cache_type now"
  shows "read_file_cache st k cache_type now = (None, st\<lparr>disk := (disk st)(k := None)\<rparr>)"
  using assms by (simp add: read_file_cache_def)

lemma read_file_valid:
  assumes "disk st k = Some (Stored e')" and "is_cache_valid e' cache_type now"
  shows "read_file_cache st k cache_type now =
     (Some (ce_data e'), st\<lparr>memory_cache := (memory_cache st)(k \<mapsto> e')\<rparr>)"
  using assms by (simp add: read_file_cache_def)

lemma read_file_no_valid:
  assumes "\<forall>e'. disk st k = Some (Stored e') \<longrightarrow> \<not> is_cache_valid e' cache_type now"
  shows "fst (read_file_cache st k cache_type now) = None"
    and "memory_cache (snd (read_file_cache st k cache_type now)) = memory_cache st"
  using assms by (auto simp: read_file_cache_def split: option.splits cache_file.splits)

lemma cache_get_memory_miss:
  assumes "get_cache_key md5 cache_type symbol kwargs = Some k"
    and "memory_miss st k cache_type now"
  shows "cache_get md5 st cache_type symbol kwargs now =
     read_file_cache (st\<lparr>memory_cache := (memory_cache st)(k := None)\<rparr>) k cache_type now"
proof (cases "memory_cache st k")
  case None
  then have "(memory_cache st)(k := None) = memory_cache st" by (simp add: fun_upd_idem)
  then have "st\<lparr>memory_cache := (memory_cache st)(k := None)\<rparr> = st" by simp
  then show ?thesis using assms None by (simp add: cache_get_def)
next
  case (Some e)
  then show ?thesis using assms by (simp add: cache_get_def memory_miss_def)
qed

lemma cache_get_memory_hit:
  assumes "get_cache_key md5 cache_type symbol kwargs = Some k"
    and "memory_cache st k = Some e" and "is_cache_valid e cache_type now"
  shows "cache_get md5 st cache_type symbol kwargs now = (Some (ce_data e), st)"
  using assms by (simp add: cache_get_def)


text \<open>
  Claim C3, amended. An entry is valid exactly when it has a readable \<open>cached_at\<close> and
  the current instant is strictly before \<open>cached_at\<close> plus the TTL of the requested
  category, which is 600 seconds for a category outside the table. When \<open>get\<close> finds an
  expired entry in the memory tier it deletes it there and goes on to the file; it then
  returns \<open>None\<close> when the file holds no valid entry. When the entry of the file is
  expired, \<open>get\<close> deletes the file and returns \<open>None\<close>. When the memory tier has no
  valid entry and the file holds a valid one, \<open>get\<close> stores that entry in the memory tier
  and returns its payload.
\<close>

theorem cache_get_expiry_and_promotion:
  "(is_cache_valid e cache_type now =
      (\<exists>t. ce_cached_at e = Some t \<and> now < t + ttl_of cache_type * 1000000)) \<and>
   (cache_type \<notin> fst ` set ttl_settings \<longrightarrow> ttl_of cache_type = 600) \<and>
   (get_cache_key md5 cache_type symbol kwargs = Some k \<and>
    memory_cache st k = Some e \<and> \<not> is_cache_valid e cache_type now \<and>
    (\<forall>e'. disk st k = Some (Stored e') \<longrightarrow> \<not> is_cache_valid e' cache_type now) \<longrightarrow>
      fst (cache_get md5 st cache_type symbol kwargs now) = None \<and>
      memory_cache (snd (cache_get md5 st cache_type symbol kwargs now)) k = None) \<and>
   (get_cache_key md5 cache_type symbol kwargs = Some k \<and>
    memory_miss st k cache_type now \<and>
    disk st k = Some (Stored e') \<and> \<not> is_cache_valid e' cache_type now \<longrightarrow>
      fst (cache_get md5 st cache_type symbol kwargs now) = None \<and>
      disk (snd (cache_get md5 st cache_type symbol kwargs now)) k = None \<and>
      memory_cache (snd (cache_get md5 st cache_type symbol kwargs now)) k = None) \<and>
   (get_cache_key md5 cache_type symbol kwargs = Some k \<and>
    memory_miss st k cache_type now \<and>
    disk st k = Some (Stored e') \<and> is_cache_valid e' cache_type now \<longrightarrow>
      fst (cache_get md5 st cache_type symbol kwargs now) = Some (ce_data e') \<and>
      memory_cache (snd (cache_get md5 st cache_type symbol kwargs now)) k = Some e' \<and>
      disk (snd (cache_get md5 st cache_type symbol kwargs now)) = disk st)"
proof (intro conjI impI)
  show "is_cache_valid e cache_type now =
      (\<exists>t. ce_cached_at e = Some t \<and> now < t + ttl_of cache_type * 1000000)"
    by (rule is_cache_valid_iff)
next
  assume "cache_type \<notin> fst ` set ttl_settings"
  then show "ttl_of cache_type = 600" by (rule ttl_of_unlisted)
next
  assume A: "get_cache_key md5 cache_type symbol kwargs = Some k \<and>
    memory_cache st k = Some e \<and> \<not> is_cache_valid e cache_type now \<and>
    (\<forall>e'. disk st k = Some (Stored e') \<longrightarrow> \<not> is_cache_valid e' cache_type now)"
  let ?st1 = "st\<lparr>memory_cache := (memory_cache st)(k := None)\<rparr>"
  have mm: "memory_miss st k cache_type now" using A by (simp add: memory_miss_def)
  have g: "cache_get md5 st cache_type symbol kwargs now = read_file_cache ?st1 k cache_type now"
    using A mm by (simp add: cache_get_memory_miss)
  have nv: "\<forall>e'. disk ?st1 k = Some (Stored e') \<longrightarrow> \<not> is_cache_valid e' cache_type now"
    using A by simp
  show "fst (cache_get md5 st cache_type symbol kwargs now) = None"
    using read_file_no_valid(1) [OF nv] by (simp add: g)
  show "memory_cache (snd (cache_get md5 st cache_type symbol kwargs now)) k = None"
    using read_file_no_valid(2) [OF nv] by (simp add: g)
next
  assume A: "get_cache_key md5 cache_type symbol kwargs = Some k \<and>
    memory_miss st k cache_type now \<and>
    disk st k = Some (Stored e') \<and> \<not> is_cache_valid e' cache_type now"
  let ?st1 = "st\<lparr>memory_cache := (memory_cache st)(k := None)\<rparr>"
  have g: "cache_get md5 st cache_type symbol kwargs now = read_file_cache ?st1 k cache_type now"
    using A by (simp add: cache_get_memory_miss)
  have d: "disk ?st1 k = Some (Stored e')" using A by simp
  have r: "read_file_cache ?st1 k cache_type now = (None, ?st1\<lparr>disk := (disk ?st1)(k := None)\<rparr>)"
    using A by (intro read_file_expired [where e' = e']) simp_all
  show "fst (cache_get md5 st cache_type symbol kwargs now) = None" by (simp add: g r)
  show "disk (snd (cache_get md5 st cache_type symbol kwargs now)) k = None" by (simp add: g r)
  show "memory_cache (snd (cache_get md5 st cache_type symbol kwargs now)) k = None"
    by (simp add: g r)
next
  assume A: "get_cache_key md5 cache_type symbol kwargs = Some k \<and>
    memory_miss st k cache_type now \<and>
    disk st k = Some (Stored e') \<and> is_cache_valid e' cache_type now"
  let ?st1 = "st\<lparr>memory_cache := (memory_cache st)(k := None)\<rparr>"
  have g: "cache_get md5 st cache_type symbol kwargs now = read_file_cache ?st1 k cache_type now"
    using A by (simp add: cache_get_memory_miss)
  have d: "disk ?st1 k = Some (Stored e')" using A by simp
  have r: "read_file_cache ?st1 k cache_type now =
      (Some (ce_data e'), ?st1\<lparr>memory_cache := (memory_cache ?st1)(k \<mapsto> e')\<rparr>)"
    using A by (intro read_file_valid [where e' = e']) simp_all
  show "fst (cache_get md5 st cache_type symbol kwargs now) = Some (ce_data e')" by (simp add: g r)
  show "memory_cache (snd (cache_get md5 st cache_type symbol kwargs now)) k = Some e'"
    by (simp add: g r)
  show "disk (snd (cache_get md5 st cache_type symbol kwargs now)) = disk st" by (simp add: g r)
qed


lemma sample_key: "get_cache_key id ''real_time'' ''RELIANCE'' [] = Some ''real_time|RELIANCE''"
  by (simp add: get_cache_key_def)

lemma quote_entry_validity:
  "\<not> is_cache_valid (quote_entry 0 2500) ''real_time'' 90000000"
  "is_cache_valid (quote_entry 60000000 2510) ''real_time'' 90000000"
  "is_cache_valid (quote_entry 0 2500) ''real_time'' 30000000"
  by (simp_all add: is_cache_valid_def quote_entry_def ttl_of_listed)

lemma news_unlisted: "''news'' \<notin> fst ` set ttl_settings"
  by (simp add: ttl_settings_def)

lemma sample_states:
  "memory_cache both_tiers_state ''real_time|RELIANCE'' = Some (quote_entry 0 2500)"
  "disk both_tiers_state ''real_time|RELIANCE'' = Some (Stored (quote_entry 0 2500))"
  "memory_cache stale_memory_state ''real_time|RELIANCE'' = Some (quote_entry 0 2500)"
  "disk stale_memory_state ''real_time|RELIANCE'' = Some (Stored (quote_entry 60000000 2510))"
  "memory_cache disk_only_state ''real_time|RELIANCE'' = None"
  "disk disk_only_state ''real_time|RELIANCE'' = Some (Stored (quote_entry 0 2500))"
  by (simp_all add: both_tiers_state_def stale_memory_state_def disk_only_state_def)

theorem cache_get_expiry_and_promotion_witness:
  "''news'' \<notin> fst ` set ttl_settings \<and> ttl_of ''news'' = 600 \<and>
   get_cache_key id ''real_time'' ''RELIANCE'' [] = Some ''real_time|RELIANCE'' \<and>
   memory_cache both_tiers_state ''real_time|RELIANCE'' = Some (quote_entry 0 2500) \<and>
   disk both_tiers_state ''real_time|RELIANCE'' = Some (Stored (quote_entry 0 2500)) \<and>
   \<not> is_cache_valid (quote_entry 0 2500) ''real_time'' 90000000 \<and>
   fst (cache_get id both_tiers_state ''real_time'' ''RELIANCE'' [] 90000000) = None \<and>
   memory_cache (snd (cache_get id both_tiers_state ''real_time'' ''RELIANCE'' [] 90000000))
     ''real_time|RELIANCE'' = None \<and>
   disk (snd (cache_get id both_tiers_state ''real_time'' ''RELIANCE'' [] 90000000))
     ''real_time|RELIANCE'' = None \<and>
   memory_miss disk_only_state ''real_time|RELIANCE'' ''real_time'' 30000000 \<and>
   is_cache_valid (quote_entry 0 2500) ''real_time'' 30000000 \<and>
   fst (cache_get id disk_only_state ''real_time'' ''RELIANCE'' [] 30000000) =
     Some (ce_data (quote_entry 0 2500)) \<and>
   memory_cache (snd (cache_get id disk_only_state ''real_time'' ''RELIANCE'' [] 30000000))
     ''real_time|RELIANCE'' = Some (quote_entry 0 2500)"
proof -
  have mm1: "memory_miss both_tiers_state ''real_time|RELIANCE'' ''real_time'' 90000000"
    by (simp add: memory_miss_def sample_states quote_entry_validity)
  have mm2: "memory_miss disk_only_state ''real_time|RELIANCE'' ''real_time'' 30000000"
    by (simp add: memory_miss_def sample_states)
  have nv: "\<forall>e'. disk both_tiers_state ''real_time|RELIANCE'' = Some (Stored e') \<longrightarrow>
      \<not> is_cache_valid e' ''real_time'' 90000000"
    by (simp add: sample_states quote_entry_validity)
  note T0 = cache_get_expiry_and_promotion
    [of "quote_entry 0 2500" "''news''" 90000000 id "''RELIANCE''" "[]" "''real_time|RELIANCE''"
        both_tiers_state "quote_entry 0 2500"]
  note T1 = cache_get_expiry_and_promotion
    [of "quote_entry 0 2500" "''real_time''" 90000000 id "''RELIANCE''" "[]" "''real_time|RELIANCE''"
        both_tiers_state "quote_entry 0 2500"]
  note T2 = cache_get_expiry_and_promotion
    [of "quote_entry 0 2500" "''real_time''" 30000000 id "''RELIANCE''" "[]" "''real_time|RELIANCE''"
        disk_only_state "quote_entry 0 2500"]
  have a: "ttl_of ''news'' = 600" using T0 news_unlisted by blast
  have b: "fst (cache_get id both_tiers_state ''real_time'' ''RELIANCE'' [] 90000000) = None \<and>
      memory_cache (snd (cache_get id both_tiers_state ''real_time'' ''RELIANCE'' [] 90000000))
        ''real_time|RELIANCE'' = None"
    using T1 sample_key sample_states(1) quote_entry_validity(1) nv by blast
  have c: "disk (snd (cache_get id both_tiers_state ''real_time'' ''RELIANCE'' [] 90000000))
        ''real_time|RELIANCE'' = None"
    using T1 sample_key mm1 sample_states(2) quote_entry_validity(1) by blast
  have d: "fst (cache_get id disk_only_state ''real_time'' ''RELIANCE'' [] 30000000) =
       Some (ce_data (quote_entry 0 2500)) \<and>
     memory_cache (snd (cache_get id disk_only_state ''real_time'' ''RELIANCE'' [] 30000000))
       ''real_time|RELIANCE'' = Some (quote_entry 0 2500)"
    using T2 sample_key mm2 sample_states(6) quote_entry_validity(3) by blast
  show ?thesis
    using a b c d mm2 news_unlisted sample_key sample_states(1,2) quote_entry_validity(1,3)
    by blast
qed

text \<open>
  Claim C3 as stated fails where the two tiers differ. In \<open>stale_memory_state\<close> the
  memory entry, cached at instant 0, is older than the 60 seconds of \<open>real_time\<close> at
  second 90; \<open>get\<close> finds it, deletes it, and then returns the payload of the file,
  cached at second 60, instead of \<open>None\<close>.
\<close>

theorem cache_get_expired_memory_valid_file:
  "memory_cache stale_memory_state ''real_time|RELIANCE'' = Some (quote_entry 0 2500) \<and>
   \<not> is_cache_valid (quote_entry 0 2500) ''real_time'' 90000000 \<and>
   fst (cache_get id stale_memory_state ''real_time'' ''RELIANCE'' [] 90000000) =
     Some [(''symbol'', JStr ''RELIANCE''), (''price'', JInt 2510)]"
proof -
  have "cache_get id stale_memory_state ''real_time'' ''RELIANCE'' [] 90000000 =
      read_file_cache
        (stale_memory_state\<lparr>memory_cache :=
           (memory_cache stale_memory_state)(''real_time|RELIANCE'' := None)\<rparr>)
        ''real_time|RELIANCE'' ''real_time'' 90000000"
    by (simp add: cache_get_def sample_key sample_states quote_entry_validity)
  also have "fst \<dots> = Some (ce_data (quote_entry 60000000 2510))"
    by (simp add: read_file_cache_def sample_states quote_entry_validity)
  finally have "fst (cache_get id stale_memory_state ''real_time'' ''RELIANCE'' [] 90000000) =
      Some (ce_data (quote_entry 60000000 2510))" .
  then show ?thesis
    by (simp add: sample_states quote_entry_validity) (simp add: quote_entry_def)
qed

subsection \<open>Cache round trip\<close>

lemma get_cache_key_defined:
  "''prefix'' \<notin> fst ` set kwargs \<Longrightarrow> \<exists>k. get_cache_key md5 cache_type symbol kwargs = Some k"
  by (simp add: get_cache_key_def Let_def)

lemma get_cache_key_prefix_clash:
  "''prefix'' \<in> fst ` set kwargs \<Longrightarrow> get_cache_key md5 cache_type symbol kwargs = None"
  by (simp add: get_cache_key_def)

lemma cache_set_memory:
  assumes "get_cache_key md5 cache_type symbol kwargs = Some k"
  shows "memory_cache (snd (cache_set md5 st cache_type symbol d kwargs now outcome)) k =
     Some \<lparr>ce_cached_at = Some now, ce_cache_type = cache_type, ce_symbol = symbol,
           ce_kwargs = kwargs, ce_data = d\<rparr>"
  using assms by (cases outcome) (simp_all add: cache_set_def Let_def)

text \<open>
  With extra parameters none of which is named \<open>prefix\<close>, \<open>get\<close> after \<open>set\<close> returns
  the stored payload while the TTL has not elapsed, whether or not the file write of
  \<open>set\<close> succeeded.
\<close>

lemma cache_round_trip:
  assumes "''prefix'' \<notin> fst ` set kwargs"
    and "now' < now + ttl_of cache_type * 1000000"
  shows "fst (cache_get md5 (snd (cache_set md5 st cache_type symbol d kwargs now outcome))
                cache_type symbol kwargs now') = Some d"
proof -
  obtain k where k: "get_cache_key md5 cache_type symbol kwargs = Some k"
    using get_cache_key_defined [OF assms(1)] by blast
  let ?e = "\<lparr>ce_cached_at = Some now, ce_cache_type = cache_type, ce_symbol = symbol,
           ce_kwargs = kwargs, ce_data = d\<rparr>"
  have m: "memory_cache (snd (cache_set md5 st cache_type symbol d kwargs now outcome)) k = Some ?e"
    by (rule cache_set_memory [OF k])
  have v: "is_cache_valid ?e cache_type now'"
    using assms(2) by (simp add: is_cache_valid_def)
  have "cache_get md5 (snd (cache_set md5 st cache_type symbol d kwargs now outcome))
          cache_type symbol kwargs now' =
        (Some (ce_data ?e), snd (cache_set md5 st cache_type symbol d kwargs now outcome))"
    by (rule cache_get_memory_hit [OF k m v])
  then show ?thesis by simp
qed

text \<open>
  Claim C6 at a concrete call. With the extra parameter \<open>prefix="x"\<close>, \<open>set\<close> stores
  nothing and returns \<open>False\<close>, and the \<open>get\<close> that follows one microsecond later with
  the same parameters returns \<open>None\<close> and not the payload.
\<close>

theorem cache_round_trip_prefix_parameter:
  "cache_set id empty_cache ''real_time'' ''TCS'' [(''price'', JInt 3500)] [(''prefix'', ''x'')]
     0 WriteOk = (False, empty_cache) \<and>
   fst (cache_get id
          (snd (cache_set id empty_cache ''real_time'' ''TCS'' [(''price'', JInt 3500)]
                  [(''prefix'', ''x'')] 0 WriteOk))
          ''real_time'' ''TCS'' [(''prefix'', ''x'')] 1) = None"
  by (simp add: cache_set_def cache_get_def get_cache_key_def)

subsection \<open>Invalidation\<close>

lemma invalidate_all:
  "invalidate st None None = \<lparr>memory_cache = Map.empty, disk = Map.empty\<rparr>"
  by (simp add: invalidate_def)

lemma invalidate_memory:
  assumes "cache_type \<noteq> None \<or> symbol \<noteq> None"
  shows "memory_cache (invalidate st cache_type symbol) k =
     (case memory_cache st k of
        None \<Rightarrow> None
      | Some e \<Rightarrow> if entry_matches cache_type symbol e then None else Some e)"
  using assms by (auto simp: invalidate_def in_keys_to_remove_def split: option.splits)

lemma invalidate_disk:
  assumes "cache_type \<noteq> None \<or> symbol \<noteq> None"
  shows "disk (invalidate st cache_type symbol) k =
     (if in_keys_to_remove st cache_type symbol k then None else disk st k)"
  using assms by (auto simp: invalidate_def)

text \<open>A file whose key is not in the memory tier survives a filtered invalidation.\<close>

lemma invalidate_keeps_disk_only:
  assumes "cache_type \<noteq> None \<or> symbol \<noteq> None" and "memory_cache st k = None"
  shows "disk (invalidate st cache_type symbol) k = disk st k"
  using assms by (simp add: invalidate_disk in_keys_to_remove_def)

text \<open>
  Claim C9 at a concrete state. A cache manager whose memory tier is empty and whose
  directory holds the file of a \<open>real_time\<close> entry for RELIANCE is asked to invalidate
  the category \<open>real_time\<close>. The entry matches the filter, the file is still there
  afterwards, and a \<open>get\<close> 30 seconds after the entry was cached serves it.
\<close>

theorem invalidate_misses_disk_only_entry:
  "entry_matches (Some ''real_time'') None (quote_entry 0 2500) \<and>
   disk disk_only_state ''real_time|RELIANCE'' = Some (Stored (quote_entry 0 2500)) \<and>
   disk (invalidate disk_only_state (Some ''real_time'') None) ''real_time|RELIANCE'' =
     Some (Stored (quote_entry 0 2500)) \<and>
   fst (cache_get id (invalidate disk_only_state (Some ''real_time'') None)
          ''real_time'' ''RELIANCE'' [] 30000000) =
     Some [(''symbol'', JStr ''RELIANCE''), (''price'', JInt 2500)]"
proof -
  have m: "entry_matches (Some ''real_time'') None (quote_entry 0 2500)"
    by (simp add: entry_matches_def quote_entry_def)
  have d: "disk (invalidate disk_only_state (Some ''real_time'') None) ''real_time|RELIANCE'' =
     Some (Stored (quote_entry 0 2500))"
    by (simp add: invalidate_def in_keys_to_remove_def sample_states)
  have mem: "memory_cache (invalidate disk_only_state (Some ''real_time'') None)
      ''real_time|RELIANCE'' = None"
    by (simp add: invalidate_def in_keys_to_remove_def sample_states)
  have "fst (cache_get id (invalidate disk_only_state (Some ''real_time'') None)
          ''real_time'' ''RELIANCE'' [] 30000000) = Some (ce_data (quote_entry 0 2500))"
    by (simp add: cache_get_def sample_key mem read_file_cache_def d quote_entry_validity)
  then have g: "fst (cache_get id (invalidate disk_only_state (Some ''real_time'') None)
          ''real_time'' ''RELIANCE'' [] 30000000) =
     Some [(''symbol'', JStr ''RELIANCE''), (''price'', JInt 2500)]"
    by (simp add: quote_entry_def)
  show ?thesis using m d g sample_states(6) by blast
qed

subsection \<open>Source fallback in the orchestrator\<close>

text \<open>
  Whatever the adapters do and whatever the priority list is, the loop started with no
  primary ends without a fallback: the branch that assigns \<open>fallback_data\<close> needs a
  primary, and the loop is left as soon as there is one.
\<close>

lemma try_sources_no_fallback:
  "fst (snd (try_sources nse_get yahoo_get symbol sources (None, None, called))) = None"
proof (induction sources arbitrary: called)
  case Nil
  then show ?case by simp
next
  case (Cons source rest)
  show ?case
  proof (cases "source = ''nse'' \<or> source = ''yahoo''")
    case False
    then show ?thesis using Cons.IH [of called] by simp
  next
    case True
    show ?thesis
    proof (cases "if source = ''nse'' then nse_get symbol else yahoo_get symbol")
      case Raises
      then show ?thesis using True Cons.IH [of "called @ [source]"] by simp
    next
      case (Returns data)
      then show ?thesis using True Cons.IH [of "called @ [source]"] by simp
    qed
  qed
qed

lemma try_sources_first_success:
  assumes "nse_get symbol = Returns (Some d)" and "is_success (Some d)"
  shows "try_sources nse_get yahoo_get symbol [''nse'', ''yahoo''] (None, None, []) =
     (Some d, None, [''nse''])"
  using assms by simp

lemma quotes_succeed: "is_success (Some nse_quote)" "is_success (Some yahoo_quote)"
  by (simp_all add: is_success_def has_error_def nse_quote_def yahoo_quote_def)

lemma real_time_priority: "map_of source_priority ''real_time'' = Some [''nse'', ''yahoo'']"
  by (simp add: source_priority_def)

lemma real_time_key: "get_cache_key id ''real_time'' ''RELIANCE'' [] = Some ''real_time|RELIANCE''"
  by (simp add: get_cache_key_def)

lemma quotes_merge:
  "merge_data_sources (Some nse_quote) (Some yahoo_quote) =
     Some [(''symbol'', JStr ''RELIANCE''), (''price'', JFloat 2500.5), (''volume'', JInt 120000),
           (''source'', JStr ''nse''), (''primary_source'', JStr ''nse''),
           (''fallback_source'', JStr ''yahoo_finance''), (''merged'', JBool True)]"
  by (simp add: merge_data_sources_def has_error_def nse_quote_def yahoo_quote_def fill_key_def
      get_or_def)


lemma empty_cache_lookup:
  "cache_get id no_cache_entries ''real_time'' ''RELIANCE'' [] 0 = (None, no_cache_entries)"
  by (simp add: cache_get_def real_time_key no_cache_entries_def read_file_cache_def)

lemma both_succeed_loop:
  "try_sources (\<lambda>symbol. Returns (Some nse_quote)) (\<lambda>symbol. Returns (Some yahoo_quote))
     ''RELIANCE'' [''nse'', ''yahoo''] (None, None, []) = (Some nse_quote, None, [''nse''])"
  by (simp add: quotes_succeed)

lemma both_succeed_request_eq:
  "both_succeed_request =
     \<lparr>pr_value = normalize_price_data (\<lambda>s. None) ''2026-11-04T10:00:00'' nse_quote,
      pr_cache = Some (snd (cache_set id no_cache_entries ''real_time'' ''RELIANCE''
                              (Some nse_quote) [] 0 WriteOk)),
      pr_called = [''nse'']\<rparr>"
proof -
  have t: "truthy_payload (Some nse_quote)" "\<not> truthy_payload None"
    by (simp_all add: truthy_payload_def nse_quote_def)
  show ?thesis
    unfolding both_succeed_request_def get_real_time_price_def
    by (simp add: empty_cache_lookup real_time_priority quotes_succeed t Let_def
        normalize_price_opt_def)
qed

text \<open>
  Claim C2 at a concrete request. Both adapters would return a successful quote. The
  orchestrator consults only the exchange adapter, leaves the loop with no fallback,
  caches and returns the exchange quote as it is; the library adapter is not called
  and the cached payload is not the merge of the two quotes, which would carry the
  library's volume and the provenance entries.
\<close>

theorem get_real_time_price_never_merges:
  "pr_called both_succeed_request = [''nse''] \<and>
   try_sources (\<lambda>symbol. Returns (Some nse_quote)) (\<lambda>symbol. Returns (Some yahoo_quote))
     ''RELIANCE'' [''nse'', ''yahoo''] (None, None, []) = (Some nse_quote, None, [''nse'']) \<and>
   map_option (\<lambda>st. map_option ce_data (memory_cache st ''real_time|RELIANCE''))
     (pr_cache both_succeed_request) = Some (Some (Some nse_quote)) \<and>
   pr_value both_succeed_request =
     normalize_price_data (\<lambda>s. None) ''2026-11-04T10:00:00'' nse_quote \<and>
   merge_data_sources (Some nse_quote) (Some yahoo_quote) \<noteq> Some nse_quote"
proof -
  have c: "map_option (\<lambda>st. map_option ce_data (memory_cache st ''real_time|RELIANCE''))
     (pr_cache both_succeed_request) = Some (Some (Some nse_quote))"
    by (simp add: both_succeed_request_eq cache_set_def real_time_key Let_def)
  have m: "merge_data_sources (Some nse_quote) (Some yahoo_quote) \<noteq> Some nse_quote"
    unfolding quotes_merge by (simp add: nse_quote_def)
  show ?thesis
    using c m both_succeed_loop by (simp add: both_succeed_request_eq)
qed


text \<open>
  The adapters consulted are an initial segment of the priority list (restricted to the
  two known source names), in its order; with the configured list there are at most two.
\<close>

lemma try_sources_called:
  "\<exists>k. snd (snd (try_sources nse_get yahoo_get symbol sources (p, f, called))) =
         called @ take k (filter (\<lambda>x. x = ''nse'' \<or> x = ''yahoo'') sources)"
proof (induction sources arbitrary: p f called)
  case Nil
  then show ?case by simp
next
  case (Cons source rest)
  let ?known = "\<lambda>x. x = ''nse'' \<or> x = ''yahoo''"
  show ?case
  proof (cases "?known source")
    case False
    obtain k where "snd (snd (try_sources nse_get yahoo_get symbol rest (p, f, called))) =
         called @ take k (filter ?known rest)"
      using Cons.IH by blast
    then show ?thesis using False by auto
  next
    case True
    obtain k where k: "snd (snd (try_sources nse_get yahoo_get symbol rest (p, f, called @ [source]))) =
         (called @ [source]) @ take k (filter ?known rest)"
      using Cons.IH by blast
    have step: "(called @ [source]) @ take k (filter ?known rest) =
        called @ take (Suc k) (filter ?known (source # rest))"
      using True by simp
    show ?thesis
    proof (cases "if source = ''nse'' then nse_get symbol else yahoo_get symbol")
      case Raises
      then have "snd (snd (try_sources nse_get yahoo_get symbol (source # rest) (p, f, called))) =
          called @ take (Suc k) (filter ?known (source # rest))"
        using True k step by simp
      then show ?thesis by blast
    next
      case (Returns data)
      show ?thesis
      proof (cases "is_success data")
        case False
        then have "snd (snd (try_sources nse_get yahoo_get symbol (source # rest) (p, f, called))) =
            called @ take (Suc k) (filter ?known (source # rest))"
          using True Returns k step by simp
        then show ?thesis by blast
      next
        case s: True
        have "snd (snd (try_sources nse_get yahoo_get symbol (source # rest) (p, f, called))) =
            called @ take (Suc 0) (filter ?known (source # rest))"
          using True Returns s by simp
        then show ?thesis by blast
      qed
    qed
  qed
qed

subsection \<open>Validation of period and interval\<close>

text \<open>
  The library-backed adapter rejects a period or interval outside the allow-lists with
  an error payload and without a round trip.
\<close>

lemma yahoo_rejects_before_network:
  assumes "\<not> validate_period period \<or> \<not> validate_interval interval"
  shows "snd (yahoo_get_historical_data yf_history symbol period interval) = []"
    and "has_error (fst (yahoo_get_historical_data yf_history symbol period interval))"
  using assms by (auto simp: yahoo_get_historical_data_def error_payload_def has_error_def)

text \<open>
  The exchange adapter issues its chart request whatever the period and interval are.
\<close>

lemma nse_always_requests:
  "snd (nse_get_historical_data float_of_str http_get has_session symbol period interval) =
     nse_get_session has_session @
     [HttpGet (''https://www.nseindia.com/api/chart-databyindex?index='' @
               nse_normalize_symbol symbol @ ''EQN&indices=true'')]"
  by (simp add: nse_get_historical_data_def Let_def split: http_response.splits option.splits)

lemma nse_reliance: "nse_normalize_symbol ''RELIANCE'' = ''RELIANCE''"
  by (simp add: nse_normalize_symbol_def upper_def upper_char_def strip_def is_space_def
      endswith_def suffix_to_prefix)

lemma bogus_period: "\<not> validate_period ''10w''" "validate_interval ''1d''"
  by (simp_all add: validate_period_def valid_periods_def validate_interval_def
      valid_intervals_def)

lemma chart_server_parse:
  "parse_historical_data (\<lambda>s. None)
     (JDict [(''grapthData'', JList [JList [JInt 1762250400000, JFloat 2501]])])
     ''RELIANCE'' ''10w'' ''1d'' =
   [(''symbol'', JStr ''RELIANCE''), (''period'', JStr ''10w''), (''interval'', JStr ''1d''),
    (''data'', JList [JDict [(''timestamp'', JInt 1762250400000), (''price'', JFloat 2501)]]),
    (''count'', JInt 1), (''source'', JStr ''nse''),
    (''note'', JStr ''NSE provides limited historical data'')]"
  by (simp add: parse_historical_data_def get_or_def)

text \<open>
  Claim C8 at a concrete call of the exchange adapter. The period \<open>10w\<close> is in no
  allow-list. A first call of \<open>get_historical_data("RELIANCE", "10w", "1d")\<close> fetches
  the home page and the chart endpoint, and with the exchange answering it returns a
  payload without an error marker that echoes the period.
\<close>

theorem nse_get_historical_data_skips_validation:
  "\<not> validate_period ''10w'' \<and>
   snd (nse_get_historical_data (\<lambda>s. None) chart_server False ''RELIANCE'' ''10w'' ''1d'') =
     [HttpGet ''https://www.nseindia.com'',
      HttpGet ''https://www.nseindia.com/api/chart-databyindex?index=RELIANCEEQN&indices=true''] \<and>
   \<not> has_error (fst (nse_get_historical_data (\<lambda>s. None) chart_server False ''RELIANCE'' ''10w'' ''1d'')) \<and>
   map_of (fst (nse_get_historical_data (\<lambda>s. None) chart_server False ''RELIANCE'' ''10w'' ''1d''))
     ''period'' = Some (JStr ''10w'')"
proof -
  have r: "nse_get_historical_data (\<lambda>s. None) chart_server False ''RELIANCE'' ''10w'' ''1d'' =
     ([(''symbol'', JStr ''RELIANCE''), (''period'', JStr ''10w''), (''interval'', JStr ''1d''),
       (''data'', JList [JDict [(''timestamp'', JInt 1762250400000), (''price'', JFloat 2501)]]),
       (''count'', JInt 1), (''source'', JStr ''nse''),
       (''note'', JStr ''NSE provides limited historical data'')],
      [HttpGet ''https://www.nseindia.com'',
       HttpGet ''https://www.nseindia.com/api/chart-databyindex?index=RELIANCEEQN&indices=true''])"
    by (simp add: nse_get_historical_data_def nse_get_session_def nse_reliance chart_server_def
        chart_server_parse Let_def)
  show ?thesis
    unfolding r by (simp add: bogus_period has_error_def)
qed

end
